theory Spec2Isabelle
  imports Main
begin

text \<open>
  A model of the stepping interpreter for pseudocode of
  \<^verbatim>\<open>src/interpreter/PseudocodeInterpreter.ts\<close> (the class with \<^verbatim>\<open>callFunction\<close>), and
  proofs about its control flow, its expression evaluator and its function calls. The
  methods of the class are functions on an explicit engine state; what the class takes
  from JavaScript (\<^verbatim>\<open>eval\<close>, the conversion of strings to numbers, the prompt) is a
  parameter; an exception is a value of the type \<open>error\<close>.
\<close>

section \<open>Program text\<close>

text \<open>
  The interpreter of \<^verbatim>\<open>src/interpreter/PseudocodeInterpreter.ts\<close> works on the text of a
  pseudocode program. Text is modelled as \<^typ>\<open>string\<close>, one \<^typ>\<open>char\<close> per byte of
  its UTF-8 form. The only character beyond ASCII that the interpreter looks for is the
  assignment arrow (U+2190), which is the three bytes of \<open>arrow\<close>. The character classes
  below are those of JavaScript regular expressions, restricted to ASCII: a program
  written with ASCII characters and the arrow is read exactly as the source reads it.
\<close>

definition arrow :: string where
  "arrow = [CHR 0xE2, CHR 0x86, CHR 0x90]"

definition isWordChar :: "char \<Rightarrow> bool" where
  "isWordChar c = (c \<in> set ''abcdefghijklmnopqrstuvwxyzABCDEFGHIJKLMNOPQRSTUVWXYZ0123456789_'')"

definition isSpace :: "char \<Rightarrow> bool" where
  "isSpace c = (c \<in> set [CHR '' '', CHR 0x09, CHR 0x0A, CHR 0x0B, CHR 0x0C, CHR 0x0D])"

definition isLineTerminator :: "char \<Rightarrow> bool" where
  "isLineTerminator c = (c = CHR 0x0A \<or> c = CHR 0x0D)"

definition isDigit :: "char \<Rightarrow> bool" where
  "isDigit c = (c \<in> set ''0123456789'')"

definition toUpperChar :: "char \<Rightarrow> char" where
  "toUpperChar c =
     (case map_of (zip ''abcdefghijklmnopqrstuvwxyz'' ''ABCDEFGHIJKLMNOPQRSTUVWXYZ'') c of
        Some u \<Rightarrow> u | None \<Rightarrow> c)"

definition toUpperCase :: "string \<Rightarrow> string" where
  "toUpperCase s = map toUpperChar s"

definition trim :: "string \<Rightarrow> string" where
  "trim s = rev (dropWhile isSpace (rev (dropWhile isSpace s)))"

definition startsWith :: "string \<Rightarrow> string \<Rightarrow> bool" where
  "startsWith s p = (take (length p) s = p)"

definition endsWith :: "string \<Rightarrow> string \<Rightarrow> bool" where
  "endsWith s p = (length p \<le> length s \<and> drop (length s - length p) s = p)"

text \<open>\<^verbatim>\<open>s.slice(1, -1)\<close>: without the first and the last character.\<close>

definition slice1 :: "string \<Rightarrow> string" where
  "slice1 s = butlast (drop 1 s)"

text \<open>\<^verbatim>\<open>s.split(c)\<close> for a one-character separator: never an empty list.\<close>

fun splitOn :: "char \<Rightarrow> string \<Rightarrow> string list" where
  "splitOn c [] = [[]]"
| "splitOn c (x # xs) =
     (if x = c then [] # splitOn c xs
      else (case splitOn c xs of [] \<Rightarrow> [[x]] | p # ps \<Rightarrow> (x # p) # ps))"

section \<open>Regular expressions\<close>

text \<open>
  The source recognises statements with JavaScript regular expressions. They are kept as
  data and run by a backtracking matcher with JavaScript's priorities: a quantifier is
  greedy and gives characters back one at a time, an optional part is tried before it is
  skipped, the left alternative before the right one, and a search takes the leftmost
  start at which the expression matches. Every quantifier of the source ranges over a
  character class, so \<open>Star\<close> and \<open>Plus\<close> carry a class.
\<close>

datatype re =
    Cls "char \<Rightarrow> bool"
  | Lit string
  | LitI string
  | Seq re re
  | Alt re re
  | Opt re
  | Star "char \<Rightarrow> bool"
  | Plus "char \<Rightarrow> bool"
  | Grp nat re
  | Bol
  | Eol
  | WordB

type_synonym caps = "nat \<Rightarrow> string option"

text \<open>
  A position is the character before it (if any) and the text after it. The continuation
  \<open>k\<close> is the rest of the expression; \<open>None\<close> makes the matcher backtrack.
\<close>

type_synonym cont = "char option \<Rightarrow> string \<Rightarrow> caps \<Rightarrow> (string \<times> caps) option"

fun litMatch :: "(char \<Rightarrow> char) \<Rightarrow> string \<Rightarrow> cont \<Rightarrow> cont" where
  "litMatch f [] k prev s cs = k prev s cs"
| "litMatch f (l # ls) k prev [] cs = None"
| "litMatch f (l # ls) k prev (c # s) cs =
     (if f c = f l then litMatch f ls k (Some c) s cs else None)"

fun starMatch :: "(char \<Rightarrow> bool) \<Rightarrow> cont \<Rightarrow> cont" where
  "starMatch p k prev [] cs = k prev [] cs"
| "starMatch p k prev (c # s) cs =
     (if p c then
        (case starMatch p k (Some c) s cs of
           Some r \<Rightarrow> Some r
         | None \<Rightarrow> k prev (c # s) cs)
      else k prev (c # s) cs)"

definition atWordBoundary :: "char option \<Rightarrow> string \<Rightarrow> bool" where
  "atWordBoundary prev s =
     ((case prev of None \<Rightarrow> False | Some c \<Rightarrow> isWordChar c)
      \<noteq> (case s of [] \<Rightarrow> False | c # _ \<Rightarrow> isWordChar c))"

fun rmatch :: "re \<Rightarrow> cont \<Rightarrow> cont" where
  "rmatch (Cls p) k prev s cs =
     (case s of [] \<Rightarrow> None | c # s' \<Rightarrow> if p c then k (Some c) s' cs else None)"
| "rmatch (Lit l) k prev s cs = litMatch (\<lambda>c. c) l k prev s cs"
| "rmatch (LitI l) k prev s cs = litMatch toUpperChar l k prev s cs"
| "rmatch (Seq a b) k prev s cs = rmatch a (rmatch b k) prev s cs"
| "rmatch (Alt a b) k prev s cs =
     (case rmatch a k prev s cs of Some r \<Rightarrow> Some r | None \<Rightarrow> rmatch b k prev s cs)"
| "rmatch (Opt a) k prev s cs =
     (case rmatch a k prev s cs of Some r \<Rightarrow> Some r | None \<Rightarrow> k prev s cs)"
| "rmatch (Star p) k prev s cs = starMatch p k prev s cs"
| "rmatch (Plus p) k prev s cs =
     (case s of [] \<Rightarrow> None | c # s' \<Rightarrow> if p c then starMatch p k (Some c) s' cs else None)"
| "rmatch (Grp i a) k prev s cs =
     rmatch a (\<lambda>prev' s' cs'. k prev' s' (cs'(i \<mapsto> take (length s - length s') s))) prev s cs"
| "rmatch Bol k prev s cs = (if prev = None then k prev s cs else None)"
| "rmatch Eol k prev s cs = (if s = [] then k prev s cs else None)"
| "rmatch WordB k prev s cs = (if atWordBoundary prev s then k prev s cs else None)"

text \<open>
  The result of a successful match: the text before it, the matched text, the captured
  groups and the text after it.
\<close>

record rmatched =
  before :: string
  matched :: string
  groups :: caps
  after :: string

definition group :: "rmatched \<Rightarrow> nat \<Rightarrow> string" where
  "group m i = (case groups m i of Some g \<Rightarrow> g | None \<Rightarrow> [])"

text \<open>
  \<open>searchFrom r pre prev s\<close> looks for the leftmost match in \<open>s\<close>, which follows the
  text \<open>pre\<close> that ends with \<open>prev\<close>: \<^verbatim>\<open>RegExp.prototype.exec\<close>.
\<close>

fun searchFrom :: "re \<Rightarrow> string \<Rightarrow> char option \<Rightarrow> string \<Rightarrow> rmatched option" where
  "searchFrom r pre prev s =
     (case rmatch r (\<lambda>p rest cs. Some (rest, cs)) prev s (\<lambda>i. None) of
        Some (rest, cs) \<Rightarrow>
          Some \<lparr>before = pre, matched = take (length s - length rest) s,
                groups = cs, after = rest\<rparr>
      | None \<Rightarrow>
          (case s of [] \<Rightarrow> None | c # s' \<Rightarrow> searchFrom r (pre @ [c]) (Some c) s'))"

text \<open>\<^verbatim>\<open>s.match(r)\<close> for an expression without the global flag.\<close>

definition match :: "string \<Rightarrow> re \<Rightarrow> rmatched option" where
  "match s r = searchFrom r [] None s"

abbreviation seqs :: "re list \<Rightarrow> re" where
  "seqs rs \<equiv> foldr Seq rs (Lit [])"

definition dotCls :: "char \<Rightarrow> bool" where
  "dotCls c = (\<not> isLineTerminator c)"

section \<open>Values\<close>

text \<open>
  The values a pseudocode variable can hold. JavaScript numbers are modelled by the
  integers together with \<open>NaN\<close>; an array is the list of its elements, a hole reading
  as \<open>Undefined\<close>.
\<close>

datatype jsval =
    Undefined
  | Null
  | Bool bool
  | Num int
  | NaN
  | Str string
  | Arr "jsval list"

datatype error =
    TypeError
  | OutOfFuel
  | Unmodelled

text \<open>
  \<open>TypeError\<close> is the exception of the source (a method called on \<^verbatim>\<open>undefined\<close>, a
  property stored on a primitive). \<open>OutOfFuel\<close> says that the bound on nested calls and
  loop rounds given to the model was too small. \<open>Unmodelled\<close> marks a JavaScript behaviour
  left out of the model: a property of an array other than an index or its length, a
  variable name that is not a plain identifier used as a regular expression.
\<close>

definition truthy :: "jsval \<Rightarrow> bool" where
  "truthy v =
     (case v of
        Undefined \<Rightarrow> False
      | Null \<Rightarrow> False
      | Bool b \<Rightarrow> b
      | Num n \<Rightarrow> n \<noteq> 0
      | NaN \<Rightarrow> False
      | Str s \<Rightarrow> s \<noteq> []
      | Arr xs \<Rightarrow> True)"

definition isArray :: "jsval \<Rightarrow> bool" where
  "isArray v = (case v of Arr xs \<Rightarrow> True | _ \<Rightarrow> False)"

definition digitChar :: "nat \<Rightarrow> char" where
  "digitChar d = ''0123456789'' ! (d mod 10)"

function digitsOf :: "nat \<Rightarrow> string" where
  "digitsOf n = (if n < 10 then [digitChar n] else digitsOf (n div 10) @ [digitChar n])"
  by pat_completeness auto
termination
  by (relation "measure (\<lambda>n. n)") auto

definition showInt :: "int \<Rightarrow> string" where
  "showInt i = (if i < 0 then CHR ''-'' # digitsOf (nat (- i)) else digitsOf (nat i))"

fun join :: "string \<Rightarrow> string list \<Rightarrow> string" where
  "join sep [] = []"
| "join sep [x] = x"
| "join sep (x # y # ys) = x @ sep @ join sep (y # ys)"

text \<open>\<^verbatim>\<open>String(v)\<close>; inside an array \<^verbatim>\<open>undefined\<close> and \<^verbatim>\<open>null\<close> print as nothing.\<close>

fun toStr :: "jsval \<Rightarrow> string" where
  "toStr Undefined = ''undefined''"
| "toStr Null = ''null''"
| "toStr (Bool b) = (if b then ''true'' else ''false'')"
| "toStr (Num n) = showInt n"
| "toStr NaN = ''NaN''"
| "toStr (Str s) = s"
| "toStr (Arr xs) =
     join '','' (map (\<lambda>x. if x = Undefined \<or> x = Null then [] else toStr x) xs)"

definition hexChar :: "nat \<Rightarrow> char" where
  "hexChar d = ''0123456789abcdef'' ! (d mod 16)"

definition jsonEscape :: "char \<Rightarrow> string" where
  "jsonEscape c =
     (if c = CHR 0x22 then [CHR 0x5C, CHR 0x22]
      else if c = CHR 0x5C then [CHR 0x5C, CHR 0x5C]
      else if c = CHR 0x08 then [CHR 0x5C, CHR ''b'']
      else if c = CHR 0x0C then [CHR 0x5C, CHR ''f'']
      else if c = CHR 0x0A then [CHR 0x5C, CHR ''n'']
      else if c = CHR 0x0D then [CHR 0x5C, CHR ''r'']
      else if c = CHR 0x09 then [CHR 0x5C, CHR ''t'']
      else if (of_char c :: nat) < 32
        then [CHR 0x5C, CHR ''u'', CHR ''0'', CHR ''0'',
              hexChar (of_char c div 16), hexChar (of_char c)]
      else [c])"

text \<open>\<^verbatim>\<open>JSON.stringify(v)\<close>, which the source applies to arrays.\<close>

fun jsonStringify :: "jsval \<Rightarrow> string" where
  "jsonStringify Undefined = ''null''"
| "jsonStringify Null = ''null''"
| "jsonStringify (Bool b) = (if b then ''true'' else ''false'')"
| "jsonStringify (Num n) = showInt n"
| "jsonStringify NaN = ''null''"
| "jsonStringify (Str s) = [CHR 0x22] @ concat (map jsonEscape s) @ [CHR 0x22]"
| "jsonStringify (Arr xs) = ''['' @ join '','' (map jsonStringify xs) @ '']''"

text \<open>The order of texts by their characters, as \<^verbatim>\<open><\<close> compares two strings.\<close>

fun strLess :: "string \<Rightarrow> string \<Rightarrow> bool" where
  "strLess [] [] = False"
| "strLess [] (y # ys) = True"
| "strLess (x # xs) [] = False"
| "strLess (x # xs) (y # ys) =
     (if x = y then strLess xs ys else (of_char x :: nat) < of_char y)"

text \<open>
  An array index as a property key: the decimal digits of a number below \<open>2^32 - 1\<close>,
  which is 4294967295, with no leading zero.
\<close>

definition digitVal :: "char \<Rightarrow> nat" where
  "digitVal c = of_char c - 48"

definition parseNat :: "string \<Rightarrow> nat" where
  "parseNat s = foldl (\<lambda>a c. 10 * a + digitVal c) 0 s"

definition indexOfKey :: "string \<Rightarrow> nat option" where
  "indexOfKey k =
     (if k \<noteq> [] \<and> list_all isDigit k \<and> (k = ''0'' \<or> hd k \<noteq> CHR ''0'')
         \<and> (length k < 10 \<or> (length k = 10 \<and> strLess k ''4294967295''))
      then Some (parseNat k) else None)"

text \<open>\<^verbatim>\<open>array[index]\<close> read.\<close>

definition arrayGet :: "jsval list \<Rightarrow> jsval \<Rightarrow> error + jsval" where
  "arrayGet xs idx =
     (case indexOfKey (toStr idx) of
        Some i \<Rightarrow> Inr (if i < length xs then xs ! i else Undefined)
      | None \<Rightarrow>
          if toStr idx = ''length'' then Inr (Num (int (length xs))) else Inl Unmodelled)"

text \<open>
  \<^verbatim>\<open>array[index] = value\<close>: a store past the end leaves holes before the new element.
\<close>

definition arraySet :: "jsval list \<Rightarrow> jsval \<Rightarrow> jsval \<Rightarrow> error + jsval list" where
  "arraySet xs idx v =
     (case indexOfKey (toStr idx) of
        Some i \<Rightarrow> Inr ((xs @ replicate (Suc i - length xs) Undefined)[i := v])
      | None \<Rightarrow> Inl Unmodelled)"

section \<open>The host\<close>

text \<open>
  What the interpreter takes from JavaScript and from the page is a parameter of the
  model. \<open>jsEval\<close> is \<^verbatim>\<open>eval\<close> on a text, \<open>None\<close> when it throws; the text is taken
  to be an expression without effect on the interpreter. \<open>stringToNumber\<close> is the
  conversion of a string operand to a number, \<open>parseFloat\<close> the function of that name
  (both give \<open>Num\<close> or \<open>NaN\<close>). \<open>inputCallback k prompt\<close> is the answer to the
  \<open>k\<close>-th prompt, \<open>None\<close> for \<^verbatim>\<open>null\<close>.
\<close>

record host =
  jsEval :: "string \<Rightarrow> jsval option"
  stringToNumber :: "string \<Rightarrow> jsval"
  parseFloat :: "string \<Rightarrow> jsval"
  inputCallback :: "nat \<Rightarrow> string \<Rightarrow> string option"

definition toNumber :: "host \<Rightarrow> jsval \<Rightarrow> jsval" where
  "toNumber h v =
     (case v of
        Undefined \<Rightarrow> NaN
      | Null \<Rightarrow> Num 0
      | Bool b \<Rightarrow> Num (if b then 1 else 0)
      | Num n \<Rightarrow> Num n
      | NaN \<Rightarrow> NaN
      | Str s \<Rightarrow> stringToNumber h s
      | Arr xs \<Rightarrow> stringToNumber h (toStr (Arr xs)))"

text \<open>\<^verbatim>\<open>v++\<close> stores the number after \<open>v\<close>.\<close>

definition increment :: "host \<Rightarrow> jsval \<Rightarrow> jsval" where
  "increment h v = (case toNumber h v of Num n \<Rightarrow> Num (n + 1) | _ \<Rightarrow> NaN)"

definition toPrimitive :: "jsval \<Rightarrow> jsval" where
  "toPrimitive v = (case v of Arr xs \<Rightarrow> Str (toStr v) | _ \<Rightarrow> v)"

text \<open>\<^verbatim>\<open>a <= b\<close>: two strings compare as texts, anything else as numbers.\<close>

definition lessEq :: "host \<Rightarrow> jsval \<Rightarrow> jsval \<Rightarrow> bool" where
  "lessEq h a b =
     (case (toPrimitive a, toPrimitive b) of
        (Str x, Str y) \<Rightarrow> \<not> strLess y x
      | (x, y) \<Rightarrow>
          (case (toNumber h x, toNumber h y) of
             (Num m, Num n) \<Rightarrow> m \<le> n
           | _ \<Rightarrow> False))"

section \<open>Replacing matches\<close>

text \<open>
  A global search cuts a text into the characters outside any match and the matches, from
  left to right; after a match the search goes on behind it (one character further after
  an empty match). \<open>skip\<close> counts the characters of the last match still to pass.
\<close>

datatype piece = Chr char | Match rmatched

fun pieces :: "re \<Rightarrow> string \<Rightarrow> char option \<Rightarrow> nat \<Rightarrow> string \<Rightarrow> piece list" where
  "pieces r pre prev skip [] =
     (if skip = 0 then
        (case rmatch r (\<lambda>p rest cs. Some (rest, cs)) prev [] (\<lambda>i. None) of
           Some (rest, cs) \<Rightarrow> [Match \<lparr>before = pre, matched = [], groups = cs, after = []\<rparr>]
         | None \<Rightarrow> [])
      else [])"
| "pieces r pre prev skip (c # s) =
     (if 0 < skip then pieces r (pre @ [c]) (Some c) (skip - 1) s
      else
        (case rmatch r (\<lambda>p rest cs. Some (rest, cs)) prev (c # s) (\<lambda>i. None) of
           None \<Rightarrow> Chr c # pieces r (pre @ [c]) (Some c) 0 s
         | Some (rest, cs) \<Rightarrow>
             (let n = length (c # s) - length rest in
                Match \<lparr>before = pre, matched = take n (c # s), groups = cs, after = rest\<rparr>
                # (if n = 0 then Chr c # pieces r (pre @ [c]) (Some c) 0 s
                   else pieces r (pre @ [c]) (Some c) (n - 1) s))))"

text \<open>
  The replacement text of \<^verbatim>\<open>String.prototype.replace\<close>: \<^verbatim>\<open>$$\<close> is a dollar,
  \<^verbatim>\<open>$&\<close> the match, \<^verbatim>\<open>$`\<close> the text before it and \<^verbatim>\<open>$'\<close> the text after it.
  The patterns replaced this way have no groups, so a dollar before a digit stays.
\<close>

fun expand :: "string \<Rightarrow> string \<Rightarrow> string \<Rightarrow> string \<Rightarrow> string" where
  "expand [] b m a = []"
| "expand [c] b m a = [c]"
| "expand (c # d # t) b m a =
     (if c = CHR ''$'' \<and> d = CHR ''$'' then CHR ''$'' # expand t b m a
      else if c = CHR ''$'' \<and> d = CHR ''&'' then m @ expand t b m a
      else if c = CHR ''$'' \<and> d = CHR 0x60 then b @ expand t b m a
      else if c = CHR ''$'' \<and> d = CHR 0x27 then a @ expand t b m a
      else c # expand (d # t) b m a)"

definition pieceText :: "string \<Rightarrow> piece \<Rightarrow> string" where
  "pieceText repl p =
     (case p of Chr c \<Rightarrow> [c] | Match m \<Rightarrow> expand repl (before m) (matched m) (after m))"

text \<open>\<^verbatim>\<open>s.replace(r, repl)\<close> for an expression \<open>r\<close> with the global flag.\<close>

definition replaceAll :: "string \<Rightarrow> re \<Rightarrow> string \<Rightarrow> string" where
  "replaceAll s r repl = concat (map (pieceText repl) (pieces r [] None 0 s))"

text \<open>\<^verbatim>\<open>s.replace(pat, repl)\<close> for a text \<open>pat\<close>: the first occurrence only.\<close>

fun replaceFirstFrom :: "string \<Rightarrow> string \<Rightarrow> string \<Rightarrow> string \<Rightarrow> string" where
  "replaceFirstFrom pat repl pre s =
     (if startsWith s pat then pre @ expand repl pre pat (drop (length pat) s)
      else (case s of [] \<Rightarrow> pre | c # s' \<Rightarrow> replaceFirstFrom pat repl (pre @ [c]) s'))"

definition replaceFirst :: "string \<Rightarrow> string \<Rightarrow> string \<Rightarrow> string" where
  "replaceFirst s pat repl = replaceFirstFrom pat repl [] s"

section \<open>The statement patterns of the source\<close>

definition notChar :: "char \<Rightarrow> char \<Rightarrow> bool" where
  "notChar x c = (c \<noteq> x)"

definition notParen :: "char \<Rightarrow> bool" where
  "notParen c = (c \<noteq> CHR ''('' \<and> c \<noteq> CHR '')'')"

text \<open>\<^verbatim>\<open>\w+(?:\[\w+\])?\<close>\<close>

definition reTargetForm :: re where
  "reTargetForm = Seq (Plus isWordChar) (Opt (seqs [Lit ''['', Plus isWordChar, Lit '']'']))"

text \<open>\<^verbatim>\<open>/^(\w+(?:\[\w+\])?)\s*<arrow>\s*(.+)$/\<close>\<close>

definition reArrowAssign :: re where
  "reArrowAssign =
     seqs [Bol, Grp 1 reTargetForm, Star isSpace, Lit arrow, Star isSpace,
           Grp 2 (Plus dotCls), Eol]"

text \<open>\<^verbatim>\<open>/(\w+)\[(.+)\]/\<close>\<close>

definition reArrayTarget :: re where
  "reArrayTarget = seqs [Grp 1 (Plus isWordChar), Lit ''['', Grp 2 (Plus dotCls), Lit '']'']"

text \<open>\<^verbatim>\<open>/SET\s+(\w+(?:\[\w+\])?)\s+TO\s+(.+)/i\<close>\<close>

definition reSet :: re where
  "reSet =
     seqs [LitI ''SET'', Plus isSpace, Grp 1 reTargetForm, Plus isSpace, LitI ''TO'',
           Plus isSpace, Grp 2 (Plus dotCls)]"

text \<open>\<^verbatim>\<open>/INPUT\s+(\w+)/i\<close> and \<^verbatim>\<open>/INPUT\s+\w+\s+WITH\s+"([^"]+)"/i\<close>\<close>

definition reInput :: re where
  "reInput = seqs [LitI ''INPUT'', Plus isSpace, Grp 1 (Plus isWordChar)]"

definition reInputPrompt :: re where
  "reInputPrompt =
     seqs [LitI ''INPUT'', Plus isSpace, Plus isWordChar, Plus isSpace, LitI ''WITH'',
           Plus isSpace, Lit [CHR 0x22], Grp 1 (Plus (notChar (CHR 0x22))), Lit [CHR 0x22]]"

text \<open>\<^verbatim>\<open>/IF\s+(.+)\s+THEN/i\<close> and \<^verbatim>\<open>/WHILE\s+(.+)\s+DO/i\<close>\<close>

definition reIf :: re where
  "reIf = seqs [LitI ''IF'', Plus isSpace, Grp 1 (Plus dotCls), Plus isSpace, LitI ''THEN'']"

definition reWhile :: re where
  "reWhile = seqs [LitI ''WHILE'', Plus isSpace, Grp 1 (Plus dotCls), Plus isSpace, LitI ''DO'']"

text \<open>
  \<^verbatim>\<open>/FOR\s+(\w+)\s*<arrow>\s*(.+)\s+TO\s+(.+)/i\<close> and
  \<^verbatim>\<open>/FOR\s+(\w+)\s+FROM\s+(.+)\s+TO\s+(.+)\s+DO/i\<close>
\<close>

definition reForArrow :: re where
  "reForArrow =
     seqs [LitI ''FOR'', Plus isSpace, Grp 1 (Plus isWordChar), Star isSpace, Lit arrow,
           Star isSpace, Grp 2 (Plus dotCls), Plus isSpace, LitI ''TO'', Plus isSpace,
           Grp 3 (Plus dotCls)]"

definition reForFrom :: re where
  "reForFrom =
     seqs [LitI ''FOR'', Plus isSpace, Grp 1 (Plus isWordChar), Plus isSpace, LitI ''FROM'',
           Plus isSpace, Grp 2 (Plus dotCls), Plus isSpace, LitI ''TO'', Plus isSpace,
           Grp 3 (Plus dotCls), Plus isSpace, LitI ''DO'']"

text \<open>
  \<^verbatim>\<open>/^FUNCTION\s+(\w+)\s*\(([^)]*)\)/i\<close>, the same for \<^verbatim>\<open>PROCEDURE\<close>, and
  \<^verbatim>\<open>/(?:FUNCTION|PROCEDURE)\s+(\w+)/i\<close>
\<close>

definition reHeader :: "string \<Rightarrow> re" where
  "reHeader kw =
     seqs [Bol, LitI kw, Plus isSpace, Grp 1 (Plus isWordChar), Star isSpace, Lit ''('',
           Grp 2 (Star (notChar (CHR '')''))), Lit '')'']"

definition reFunctionName :: re where
  "reFunctionName =
     seqs [Alt (LitI ''FUNCTION'') (LitI ''PROCEDURE''), Plus isSpace, Grp 1 (Plus isWordChar)]"

text \<open>\<^verbatim>\<open>/CALL\s+(\w+)\s*\(([^)]*)\)/i\<close> and \<^verbatim>\<open>/RETURN\s+(.+)/i\<close>\<close>

definition reCall :: re where
  "reCall =
     seqs [LitI ''CALL'', Plus isSpace, Grp 1 (Plus isWordChar), Star isSpace, Lit ''('',
           Grp 2 (Star (notChar (CHR '')''))), Lit '')'']"

definition reReturn :: re where
  "reReturn = seqs [LitI ''RETURN'', Plus isSpace, Grp 1 (Plus dotCls)]"

text \<open>\<^verbatim>\<open>/(\w+)\s*\(([^()]*)\)/g\<close> and \<^verbatim>\<open>/(\w+)\[([^\]]+)\]/g\<close>\<close>

definition reCallExpr :: re where
  "reCallExpr =
     seqs [Grp 1 (Plus isWordChar), Star isSpace, Lit ''('', Grp 2 (Star notParen), Lit '')'']"

definition reArrayAccess :: re where
  "reArrayAccess =
     seqs [Grp 1 (Plus isWordChar), Lit ''['', Grp 2 (Plus (notChar (CHR '']''))), Lit '']'']"

text \<open>\<^verbatim>\<open>/\bAND\b/gi\<close> and the like; \<^verbatim>\<open>new RegExp(`\\b${varName}\\b`, 'g')\<close>\<close>

definition reKeyword :: "string \<Rightarrow> re" where
  "reKeyword w = seqs [WordB, LitI w, WordB]"

definition reVariable :: "string \<Rightarrow> re" where
  "reVariable v = seqs [WordB, Lit v, WordB]"

section \<open>Engine state\<close>

text \<open>
  \<^verbatim>\<open>Record<string, any>\<close>: the bindings in the order \<^verbatim>\<open>Object.entries\<close> lists them,
  the order of their first assignment (JavaScript lists names that are array indices, made
  of digits only, before the others; the model keeps them where they were assigned). An
  unbound name reads as \<open>Undefined\<close>. Properties inherited from
  \<^verbatim>\<open>Object.prototype\<close> are not modelled.
\<close>

type_synonym vars = "(string \<times> jsval) list"

definition getVar :: "vars \<Rightarrow> string \<Rightarrow> jsval" where
  "getVar vs k = (case map_of vs k of Some v \<Rightarrow> v | None \<Rightarrow> Undefined)"

fun setVar :: "vars \<Rightarrow> string \<Rightarrow> jsval \<Rightarrow> vars" where
  "setVar [] k v = [(k, v)]"
| "setVar ((k', v') # vs) k v = (if k' = k then (k, v) # vs else (k', v') # setVar vs k v)"

text \<open>An entry of \<^verbatim>\<open>callStack\<close>; \<open>ftype\<close> is the field \<^verbatim>\<open>type\<close>.\<close>

record frame =
  line :: nat
  ftype :: string
  condition :: "string option"
  loopVar :: "string option"
  loopEnd :: "jsval option"
  returnLine :: "nat option"
  savedVariables :: "vars option"
  functionName :: "string option"

definition newFrame :: "nat \<Rightarrow> string \<Rightarrow> frame" where
  "newFrame l t =
     \<lparr>line = l, ftype = t, condition = None, loopVar = None, loopEnd = None,
      returnLine = None, savedVariables = None, functionName = None\<rparr>"

text \<open>
  \<^verbatim>\<open>ExecutionState\<close>, with what the engine does to its surroundings: \<open>outputs\<close> lists the
  messages given to \<^verbatim>\<open>outputCallback\<close>, \<open>inputsRead\<close> counts the calls of
  \<^verbatim>\<open>inputCallback\<close>. \<open>envObject\<close> names the object that \<^verbatim>\<open>state.variables\<close> refers
  to: it changes whenever the source installs another object there, which a statement
  that holds on to the old object can observe. The stack grows at the end of the list.
\<close>

record state =
  variables :: vars
  currentLine :: nat
  finished :: bool
  callStack :: "frame list"
  outputs :: "string list"
  inputsRead :: nat
  envObject :: nat

text \<open>The value returned by \<^verbatim>\<open>step\<close>: a copy of the four fields of the state.\<close>

definition snapshot :: "state \<Rightarrow> vars \<times> nat \<times> bool \<times> frame list" where
  "snapshot st = (variables st, currentLine st, finished st, callStack st)"

definition topFrame :: "frame list \<Rightarrow> frame option" where
  "topFrame fs = (if fs = [] then None else Some (last fs))"

record funcDef =
  name :: string
  params :: "string list"
  startLine :: nat
  endLine :: nat

text \<open>
  The fields \<^verbatim>\<open>lines\<close> and \<^verbatim>\<open>functions\<close> of the interpreter (\<open>funcs\<close> here), which
  do not change once it is constructed.
\<close>

record program =
  lines :: "string list"
  funcs :: "string \<Rightarrow> funcDef option"

section \<open>Block matcher\<close>

text \<open>
  The loop of \<^verbatim>\<open>findMatchingEnd\<close> over the lines after the start line; \<open>None\<close> when it
  runs off the end of the program.
\<close>

fun scanEnd :: "string \<Rightarrow> string list \<Rightarrow> nat \<Rightarrow> int \<Rightarrow> nat option" where
  "scanEnd blockType [] i depth = None"
| "scanEnd blockType (l # ls) i depth =
     (let upperLine = toUpperCase l in
        if startsWith upperLine (blockType @ '' '')
          then scanEnd blockType ls (i + 1) (depth + 1)
        else if upperLine = ''END '' @ blockType \<or> upperLine = ''END'' @ blockType
                \<or> (blockType = ''FOR'' \<and> startsWith upperLine ''NEXT '')
          then (if depth - 1 = 0 then Some i else scanEnd blockType ls (i + 1) (depth - 1))
        else if blockType = ''IF'' \<and> upperLine = ''ELSE'' \<and> depth = 1 then Some i
        else scanEnd blockType ls (i + 1) depth)"

definition findMatchingEnd :: "string list \<Rightarrow> string \<Rightarrow> nat \<Rightarrow> nat" where
  "findMatchingEnd ls blockType start =
     (case scanEnd blockType (drop (start + 1) ls) (start + 1) 1 of
        Some i \<Rightarrow> i
      | None \<Rightarrow> length ls)"

section \<open>Function table\<close>

definition parseParams :: "string \<Rightarrow> string list" where
  "parseParams s = filter (\<lambda>p. 0 < length p) (map trim (splitOn (CHR '','') s))"

text \<open>The body of the loop of \<^verbatim>\<open>parseFunctions\<close> for line \<open>i\<close>.\<close>

definition parseFunctionAt ::
  "string list \<Rightarrow> (string \<Rightarrow> funcDef option) \<Rightarrow> nat \<Rightarrow> (string \<Rightarrow> funcDef option)" where
  "parseFunctionAt ls fs i =
     (let l = ls ! i;
          funcMatch = match l (reHeader ''FUNCTION'');
          procMatch = match l (reHeader ''PROCEDURE'')
      in case (if funcMatch \<noteq> None then funcMatch else procMatch) of
           None \<Rightarrow> fs
         | Some m \<Rightarrow>
             (let funcName = group m 1;
                  blockType = (if funcMatch \<noteq> None then ''FUNCTION'' else ''PROCEDURE'')
              in fs(funcName \<mapsto>
                   \<lparr>name = funcName, params = parseParams (group m 2), startLine = i,
                    endLine = findMatchingEnd ls blockType i\<rparr>)))"

definition parseFunctions :: "string list \<Rightarrow> (string \<Rightarrow> funcDef option)" where
  "parseFunctions ls = foldl (parseFunctionAt ls) (\<lambda>n. None) [0..<length ls]"

text \<open>The constructor: the lines of the program and its function table.\<close>

definition programOfLines :: "string list \<Rightarrow> program" where
  "programOfLines ls = \<lparr>lines = ls, funcs = parseFunctions ls\<rparr>"

definition load :: "string \<Rightarrow> program" where
  "load code =
     programOfLines (filter (\<lambda>l. 0 < length l) (map trim (splitOn (CHR 0x0A) code)))"

definition initialState :: state where
  "initialState =
     \<lparr>variables = [], currentLine = 0, finished = False, callStack = [], outputs = [],
      inputsRead = 0, envObject = 0\<rparr>"

section \<open>Condition evaluator\<close>

definition isIdentifier :: "string \<Rightarrow> bool" where
  "isIdentifier v = (v \<noteq> [] \<and> filter (\<lambda>c. \<not> isWordChar c) v = [])"

text \<open>
  The loop over \<^verbatim>\<open>Object.entries(this.state.variables)\<close> that replaces each bound name
  by a text for its value.
\<close>

fun substituteVars :: "(jsval \<Rightarrow> string) \<Rightarrow> vars \<Rightarrow> string \<Rightarrow> error + string" where
  "substituteVars shown [] s = Inr s"
| "substituteVars shown ((varName, v) # vs) s =
     (if isIdentifier varName
      then substituteVars shown vs (replaceAll s (reVariable varName) (shown v))
      else Inl Unmodelled)"

definition evaluateCondition :: "host \<Rightarrow> vars \<Rightarrow> string \<Rightarrow> error + jsval" where
  "evaluateCondition h vs cond =
     (let c0 = trim cond;
          c1 = replaceAll c0 (reKeyword ''AND'') ''&&'';
          c2 = replaceAll c1 (reKeyword ''OR'') ''||'';
          c3 = replaceAll c2 (reKeyword ''NOT'') ''!'';
          c4 = replaceAll c3 (reKeyword ''MOD'') ''%''
      in case substituteVars toStr vs c4 of
           Inl e \<Rightarrow> Inl e
         | Inr processedCondition \<Rightarrow>
             Inr (case jsEval h processedCondition of Some v \<Rightarrow> v | None \<Rightarrow> Bool False))"

section \<open>Expression evaluator\<close>

subsection \<open>After the calls are replaced\<close>

text \<open>
  The second half of \<^verbatim>\<open>evaluateExpression\<close> neither calls a function nor changes the
  state: array accesses, variables, then either the concatenation of texts or \<^verbatim>\<open>eval\<close>.
\<close>

definition indexValueOf :: "host \<Rightarrow> vars \<Rightarrow> string \<Rightarrow> jsval" where
  "indexValueOf h vs indexExpr =
     (if map_of vs indexExpr \<noteq> None then getVar vs indexExpr
      else (case jsEval h indexExpr of Some v \<Rightarrow> v | None \<Rightarrow> Str indexExpr))"

fun arrayReplacements :: "host \<Rightarrow> vars \<Rightarrow> piece list \<Rightarrow> error + (string \<times> jsval) list" where
  "arrayReplacements h vs [] = Inr []"
| "arrayReplacements h vs (Chr c # ps) = arrayReplacements h vs ps"
| "arrayReplacements h vs (Match m # ps) =
     (case getVar vs (group m 1) of
        Arr xs \<Rightarrow>
          (case arrayGet xs (indexValueOf h vs (group m 2)) of
             Inl e \<Rightarrow> Inl e
           | Inr v \<Rightarrow>
               (case arrayReplacements h vs ps of
                  Inl e \<Rightarrow> Inl e
                | Inr reps \<Rightarrow> Inr ((matched m, v) # reps)))
      | _ \<Rightarrow> arrayReplacements h vs ps)"

fun applyReplacements :: "(string \<times> jsval) list \<Rightarrow> string \<Rightarrow> string" where
  "applyReplacements [] s = s"
| "applyReplacements ((pat, v) # reps) s = applyReplacements reps (replaceFirst s pat (toStr v))"

definition literalForm :: "jsval \<Rightarrow> string" where
  "literalForm v =
     (case v of
        Arr xs \<Rightarrow> jsonStringify v
      | Str t \<Rightarrow> [CHR 0x22] @ t @ [CHR 0x22]
      | _ \<Rightarrow> toStr v)"

text \<open>The split at each \<^verbatim>\<open>+\<close> outside quotes and parentheses.\<close>

fun splitTopLevel :: "string \<Rightarrow> string \<Rightarrow> bool \<Rightarrow> int \<Rightarrow> string list" where
  "splitTopLevel [] current inString parenDepth =
     (if trim current \<noteq> [] then [trim current] else [])"
| "splitTopLevel (c # s) current inString parenDepth =
     (if c = CHR 0x22 then splitTopLevel s (current @ [c]) (\<not> inString) parenDepth
      else if c = CHR ''('' \<and> \<not> inString
        then splitTopLevel s (current @ [c]) inString (parenDepth + 1)
      else if c = CHR '')'' \<and> \<not> inString
        then splitTopLevel s (current @ [c]) inString (parenDepth - 1)
      else if c = CHR ''+'' \<and> \<not> inString \<and> parenDepth = 0
        then trim current # splitTopLevel s [] inString parenDepth
      else splitTopLevel s (current @ [c]) inString parenDepth)"

definition partText :: "host \<Rightarrow> string \<Rightarrow> string" where
  "partText h part =
     (if startsWith part [CHR 0x22] \<and> endsWith part [CHR 0x22] then slice1 part
      else (case jsEval h part of Some v \<Rightarrow> toStr v | None \<Rightarrow> part))"

definition evaluateProcessed :: "host \<Rightarrow> vars \<Rightarrow> string \<Rightarrow> error + jsval" where
  "evaluateProcessed h vs afterCalls =
     (case arrayReplacements h vs (pieces reArrayAccess [] None 0 afterCalls) of
        Inl e \<Rightarrow> Inl e
      | Inr reps \<Rightarrow>
          (case substituteVars literalForm vs (applyReplacements reps afterCalls) of
             Inl e \<Rightarrow> Inl e
           | Inr processedExpr \<Rightarrow>
               Inr (if CHR ''+'' \<in> set processedExpr \<and> CHR 0x22 \<in> set processedExpr
                    then Str (concat (map (partText h) (splitTopLevel processedExpr [] False 0)))
                    else (case jsEval h processedExpr of
                            Some v \<Rightarrow> v
                          | None \<Rightarrow> Str processedExpr))))"

subsection \<open>Calls inside an expression\<close>

text \<open>
  \<^verbatim>\<open>evaluateExpression\<close> calls \<^verbatim>\<open>callFunction\<close>, which runs lines through
  \<^verbatim>\<open>executeLine\<close>, which evaluates expressions. The model cuts this circle at the
  call: the evaluator takes the function \<open>call\<close> to use for \<^verbatim>\<open>this.callFunction\<close>,
  and \<open>callFunction\<close> below closes the circle. Nothing bounds the recursion or the loops
  of the source, so each function takes a number \<open>fuel\<close> that bounds their depth;
  \<open>Inl OutOfFuel\<close> says that the bound was reached, never that the source stops.
\<close>

type_synonym callT = "string \<Rightarrow> jsval list \<Rightarrow> state \<Rightarrow> error + (jsval \<times> state)"

type_synonym evalT = "string \<Rightarrow> state \<Rightarrow> error + (jsval \<times> state)"

definition builtInFunctions :: "string list" where
  "builtInFunctions = [''LENGTH'', ''LEN'', ''SIZE'']"

text \<open>\<^verbatim>\<open>items.map(item => this.evaluateExpression(item))\<close>, one item after the other.\<close>

fun evaluateAll :: "evalT \<Rightarrow> string list \<Rightarrow> state \<Rightarrow> error + (jsval list \<times> state)" where
  "evaluateAll ev [] st = Inr ([], st)"
| "evaluateAll ev (x # xs) st =
     (case ev x st of
        Inl e \<Rightarrow> Inl e
      | Inr (v, st1) \<Rightarrow>
          (case evaluateAll ev xs st1 of
             Inl e \<Rightarrow> Inl e
           | Inr (vs, st2) \<Rightarrow> Inr (v # vs, st2)))"

text \<open>
  One pass of \<^verbatim>\<open>processedExpr.replace(/(\w+)\s*\(([^()]*)\)/g, ...)\<close>: the callback runs
  on each match from left to right. The result is the flag \<^verbatim>\<open>hasFunction\<close> and the new
  text.
\<close>

fun replaceCalls ::
  "program \<Rightarrow> evalT \<Rightarrow> callT \<Rightarrow> piece list \<Rightarrow> state \<Rightarrow> error + ((bool \<times> string) \<times> state)" where
  "replaceCalls P ev call [] st = Inr ((False, []), st)"
| "replaceCalls P ev call (Chr c # ps) st =
     (case replaceCalls P ev call ps st of
        Inl e \<Rightarrow> Inl e
      | Inr ((hasFunction, t), st') \<Rightarrow> Inr ((hasFunction, c # t), st'))"
| "replaceCalls P ev call (Match m # ps) st =
     (if toUpperCase (group m 1) \<in> set builtInFunctions then
        (case ev (trim (group m 2)) st of
           Inl e \<Rightarrow> Inl e
         | Inr (v, st1) \<Rightarrow>
             (case replaceCalls P ev call ps st1 of
                Inl e \<Rightarrow> Inl e
              | Inr ((hasFunction, t), st2) \<Rightarrow>
                  Inr ((True,
                        (case v of Arr xs \<Rightarrow> showInt (int (length xs)) | _ \<Rightarrow> ''0'') @ t), st2)))
      else if funcs P (group m 1) \<noteq> None then
        (case (if group m 2 \<noteq> []
               then evaluateAll ev (map trim (splitOn (CHR '','') (group m 2))) st
               else Inr ([], st)) of
           Inl e \<Rightarrow> Inl e
         | Inr (args, st1) \<Rightarrow>
             (case call (group m 1) args st1 of
                Inl e \<Rightarrow> Inl e
              | Inr (result, st2) \<Rightarrow>
                  (case replaceCalls P ev call ps st2 of
                     Inl e \<Rightarrow> Inl e
                   | Inr ((hasFunction, t), st3) \<Rightarrow> Inr ((True, toStr result @ t), st3))))
      else
        (case replaceCalls P ev call ps st of
           Inl e \<Rightarrow> Inl e
         | Inr ((hasFunction, t), st') \<Rightarrow> Inr ((hasFunction, matched m @ t), st')))"

text \<open>\<^verbatim>\<open>while (hasFunction) { ... }\<close>\<close>

primrec replaceCallsLoop ::
  "program \<Rightarrow> evalT \<Rightarrow> callT \<Rightarrow> nat \<Rightarrow> string \<Rightarrow> state \<Rightarrow> error + (string \<times> state)" where
  "replaceCallsLoop P ev call 0 = (\<lambda>processedExpr st. Inl OutOfFuel)"
| "replaceCallsLoop P ev call (Suc n) =
     (\<lambda>processedExpr st.
        case replaceCalls P ev call (pieces reCallExpr [] None 0 processedExpr) st of
          Inl e \<Rightarrow> Inl e
        | Inr ((hasFunction, t), st') \<Rightarrow>
            (if hasFunction then replaceCallsLoop P ev call n t st' else Inr (t, st')))"

primrec evaluateExpression :: "host \<Rightarrow> program \<Rightarrow> callT \<Rightarrow> nat \<Rightarrow> evalT" where
  "evaluateExpression h P call 0 = (\<lambda>expr0 st. Inl OutOfFuel)"
| "evaluateExpression h P call (Suc n) =
     (\<lambda>expr0 st.
        let expr = trim expr0 in
          if startsWith expr [CHR 0x22] \<and> endsWith expr [CHR 0x22]
            then Inr (Str (slice1 expr), st)
          else if startsWith expr ''['' \<and> endsWith expr '']''
            then (case evaluateAll (evaluateExpression h P call n)
                         (map trim (splitOn (CHR '','') (slice1 expr))) st of
                    Inl e \<Rightarrow> Inl e
                  | Inr (items, st') \<Rightarrow> Inr (Arr items, st'))
          else (case replaceCallsLoop P (evaluateExpression h P call n) call n expr st of
                  Inl e \<Rightarrow> Inl e
                | Inr (afterCalls, st') \<Rightarrow>
                    (case evaluateProcessed h (variables st') afterCalls of
                       Inl e \<Rightarrow> Inl e
                     | Inr v \<Rightarrow> Inr (v, st'))))"

section \<open>Statements\<close>

definition advance :: "state \<Rightarrow> state" where
  "advance st = st\<lparr>currentLine := currentLine st + 1\<rparr>"

text \<open>
  An assignment to \<open>target\<close>, from \<^verbatim>\<open>target <arrow> expression\<close> or
  \<^verbatim>\<open>SET target TO expression\<close>. For an array target the index and the value are
  evaluated first and stored afterwards. For a plain target the source writes
  \<^verbatim>\<open>this.state.variables[target] = this.evaluateExpression(expression)\<close>: JavaScript takes
  the object \<^verbatim>\<open>this.state.variables\<close> before it evaluates the right-hand side, so when
  the evaluation has run a user function, which leaves a copy in \<^verbatim>\<open>state.variables\<close>,
  the value is stored in the object that is no longer the environment.
\<close>

definition assign :: "evalT \<Rightarrow> string \<Rightarrow> string \<Rightarrow> state \<Rightarrow> error + state" where
  "assign ev target expression st =
     (case match target reArrayTarget of
        Some am \<Rightarrow>
          (case ev (group am 2) st of
             Inl e \<Rightarrow> Inl e
           | Inr (index, st1) \<Rightarrow>
               (case ev expression st1 of
                  Inl e \<Rightarrow> Inl e
                | Inr (v, st2) \<Rightarrow>
                    (let arrayName = group am 1;
                         vs = (if \<not> truthy (getVar (variables st2) arrayName)
                               then setVar (variables st2) arrayName (Arr [])
                               else variables st2)
                     in case getVar vs arrayName of
                          Arr xs \<Rightarrow>
                            (case arraySet xs index v of
                               Inl e \<Rightarrow> Inl e
                             | Inr xs' \<Rightarrow> Inr (st2\<lparr>variables := setVar vs arrayName (Arr xs')\<rparr>))
                        | _ \<Rightarrow> Inl TypeError)))
      | None \<Rightarrow>
          (case ev expression st of
             Inl e \<Rightarrow> Inl e
           | Inr (v, st1) \<Rightarrow>
               Inr (if envObject st1 = envObject st
                    then st1\<lparr>variables := setVar (variables st1) target v\<rparr>
                    else st1)))"

definition execSet :: "evalT \<Rightarrow> string \<Rightarrow> state \<Rightarrow> error + state" where
  "execSet ev ln st =
     (case match ln reSet of
        Some m \<Rightarrow>
          (case assign ev (group m 1) (group m 2) st of
             Inl e \<Rightarrow> Inl e
           | Inr st1 \<Rightarrow> Inr (advance st1))
      | None \<Rightarrow> Inr (advance st))"

definition execOutput :: "evalT \<Rightarrow> string \<Rightarrow> string \<Rightarrow> state \<Rightarrow> error + state" where
  "execOutput ev ln upperLine st =
     (let keyword = (if startsWith upperLine ''OUTPUT '' then ''OUTPUT '' else ''PRINT '')
      in case ev (trim (drop (length keyword) ln)) st of
           Inl e \<Rightarrow> Inl e
         | Inr (v, st1) \<Rightarrow> Inr (advance (st1\<lparr>outputs := outputs st1 @ [toStr v]\<rparr>)))"

definition execInput :: "host \<Rightarrow> string \<Rightarrow> state \<Rightarrow> state" where
  "execInput h ln st =
     advance
       (case match ln reInput of
          None \<Rightarrow> st
        | Some m \<Rightarrow>
            (let varName = group m 1;
                 promptText = (case match ln reInputPrompt of
                                 Some pm \<Rightarrow> group pm 1
                               | None \<Rightarrow> ''Enter value for '' @ varName @ '':'');
                 st1 = st\<lparr>inputsRead := inputsRead st + 1\<rparr>
             in case inputCallback h (inputsRead st) promptText of
                  None \<Rightarrow> st1
                | Some inputValue \<Rightarrow>
                    st1\<lparr>variables :=
                          setVar (variables st1) varName
                            (if parseFloat h inputValue = NaN then Str inputValue
                             else parseFloat h inputValue)\<rparr>))"

definition execIf :: "host \<Rightarrow> program \<Rightarrow> string \<Rightarrow> state \<Rightarrow> error + state" where
  "execIf h P ln st =
     (case match ln reIf of
        None \<Rightarrow> Inr st
      | Some m \<Rightarrow>
          (case evaluateCondition h (variables st) (group m 1) of
             Inl e \<Rightarrow> Inl e
           | Inr result \<Rightarrow>
               Inr (if truthy result
                    then st\<lparr>callStack := callStack st
                                @ [(newFrame (currentLine st) ''IF'')\<lparr>condition := Some (group m 1)\<rparr>],
                            currentLine := currentLine st + 1\<rparr>
                    else st\<lparr>currentLine :=
                              findMatchingEnd (lines P) ''IF'' (currentLine st) + 1\<rparr>)))"

text \<open>\<^verbatim>\<open>END IF\<close> and \<^verbatim>\<open>ENDIF\<close>\<close>

definition execEndIf :: "state \<Rightarrow> state" where
  "execEndIf st =
     advance
       (case topFrame (callStack st) of
          None \<Rightarrow> st
        | Some block \<Rightarrow>
            if ftype block = ''IF'' then st\<lparr>callStack := butlast (callStack st)\<rparr> else st)"

definition execWhile :: "host \<Rightarrow> program \<Rightarrow> string \<Rightarrow> state \<Rightarrow> error + state" where
  "execWhile h P ln st =
     (case match ln reWhile of
        None \<Rightarrow> Inr st
      | Some m \<Rightarrow>
          (case evaluateCondition h (variables st) (group m 1) of
             Inl e \<Rightarrow> Inl e
           | Inr result \<Rightarrow>
               (let existingLoop =
                      find (\<lambda>block. line block = currentLine st \<and> ftype block = ''WHILE'')
                        (callStack st)
                in Inr (if truthy result
                        then st\<lparr>callStack :=
                                  (if existingLoop = None
                                   then callStack st
                                     @ [(newFrame (currentLine st) ''WHILE'')
                                          \<lparr>condition := Some (group m 1)\<rparr>]
                                   else callStack st),
                                currentLine := currentLine st + 1\<rparr>
                        else st\<lparr>callStack :=
                                  (if existingLoop \<noteq> None then butlast (callStack st)
                                   else callStack st),
                                currentLine :=
                                  findMatchingEnd (lines P) ''WHILE'' (currentLine st) + 1\<rparr>))))"

definition execEndWhile :: "state \<Rightarrow> state" where
  "execEndWhile st =
     (case topFrame (callStack st) of
        None \<Rightarrow> advance st
      | Some block \<Rightarrow>
          if ftype block = ''WHILE'' then st\<lparr>currentLine := line block\<rparr> else advance st)"

text \<open>\<^verbatim>\<open>block.loopVar!\<close> as a property name and \<^verbatim>\<open>block.loopEnd!\<close> as a value.\<close>

definition loopVarName :: "frame \<Rightarrow> string" where
  "loopVarName block = (case loopVar block of Some v \<Rightarrow> v | None \<Rightarrow> ''undefined'')"

definition loopEndValue :: "frame \<Rightarrow> jsval" where
  "loopEndValue block = (case loopEnd block of Some v \<Rightarrow> v | None \<Rightarrow> Undefined)"

definition execFor :: "host \<Rightarrow> program \<Rightarrow> evalT \<Rightarrow> string \<Rightarrow> state \<Rightarrow> error + state" where
  "execFor h P ev ln st =
     (let matchArrow = match ln reForArrow;
          matchFrom = match ln reForFrom
      in case (if matchArrow \<noteq> None then matchArrow else matchFrom) of
           None \<Rightarrow> Inr st
         | Some m \<Rightarrow>
             (case find (\<lambda>block. line block = currentLine st \<and> ftype block = ''FOR'')
                     (callStack st) of
                None \<Rightarrow>
                  (case ev (group m 2) st of
                     Inl e \<Rightarrow> Inl e
                   | Inr (startValue, st1) \<Rightarrow>
                       (case ev (group m 3) st1 of
                          Inl e \<Rightarrow> Inl e
                        | Inr (endValue, st2) \<Rightarrow>
                            Inr (st2\<lparr>variables := setVar (variables st2) (group m 1) startValue,
                                     callStack := callStack st2
                                       @ [(newFrame (currentLine st2) ''FOR'')
                                            \<lparr>loopVar := Some (group m 1),
                                             loopEnd := Some endValue\<rparr>],
                                     currentLine := currentLine st2 + 1\<rparr>)))
              | Some existingLoop \<Rightarrow>
                  Inr (if lessEq h (getVar (variables st) (loopVarName existingLoop))
                            (loopEndValue existingLoop)
                       then st\<lparr>currentLine := currentLine st + 1\<rparr>
                       else st\<lparr>callStack := butlast (callStack st),
                               currentLine :=
                                 findMatchingEnd (lines P) ''FOR'' (currentLine st) + 1\<rparr>)))"

text \<open>\<^verbatim>\<open>END FOR\<close> and \<^verbatim>\<open>NEXT ...\<close>\<close>

definition execNext :: "host \<Rightarrow> state \<Rightarrow> state" where
  "execNext h st =
     (case topFrame (callStack st) of
        None \<Rightarrow> advance st
      | Some block \<Rightarrow>
          if ftype block = ''FOR''
          then st\<lparr>variables :=
                    setVar (variables st) (loopVarName block)
                      (increment h (getVar (variables st) (loopVarName block))),
                  currentLine := line block\<rparr>
          else advance st)"

text \<open>A \<^verbatim>\<open>FUNCTION\<close> or \<^verbatim>\<open>PROCEDURE\<close> header met while stepping.\<close>

definition execHeader :: "program \<Rightarrow> string \<Rightarrow> state \<Rightarrow> state" where
  "execHeader P ln st =
     (case match ln reFunctionName of
        None \<Rightarrow> advance st
      | Some funcMatch \<Rightarrow>
          (case funcs P (group funcMatch 1) of
             Some funcDef \<Rightarrow> st\<lparr>currentLine := endLine funcDef + 1\<rparr>
           | None \<Rightarrow> advance st))"

definition execCall :: "evalT \<Rightarrow> callT \<Rightarrow> string \<Rightarrow> state \<Rightarrow> error + state" where
  "execCall ev call ln st =
     (case match ln reCall of
        None \<Rightarrow> Inr (advance st)
      | Some callMatch \<Rightarrow>
          (case (if group callMatch 2 \<noteq> []
                 then evaluateAll ev (map trim (splitOn (CHR '','') (group callMatch 2))) st
                 else Inr ([], st)) of
             Inl e \<Rightarrow> Inl e
           | Inr (args, st1) \<Rightarrow>
               (case call (group callMatch 1) args st1 of
                  Inl e \<Rightarrow> Inl e
                | Inr (r, st2) \<Rightarrow> Inr (advance st2))))"

text \<open>
  The frames popped by \<^verbatim>\<open>RETURN\<close>, given the stack with its top first: the nearest
  \<^verbatim>\<open>FUNCTION_CALL\<close> frame and the frames below it.
\<close>

fun popToCall :: "frame list \<Rightarrow> (frame \<times> frame list) option" where
  "popToCall [] = None"
| "popToCall (block # below) =
     (if ftype block = ''FUNCTION_CALL'' then Some (block, below) else popToCall below)"

definition execReturn :: "evalT \<Rightarrow> string \<Rightarrow> state \<Rightarrow> error + state" where
  "execReturn ev ln st =
     (case (case match ln reReturn of
              Some returnMatch \<Rightarrow> ev (group returnMatch 1) st
            | None \<Rightarrow> Inr (Undefined, st)) of
        Inl e \<Rightarrow> Inl e
      | Inr (returnValue, st1) \<Rightarrow>
          (case popToCall (rev (callStack st1)) of
             None \<Rightarrow> Inr (advance st1)
           | Some (functionBlock, below) \<Rightarrow>
               (case returnLine functionBlock of
                  None \<Rightarrow> Inl Unmodelled
                | Some resume \<Rightarrow>
                    (let savedVars = (case savedVariables functionBlock of
                                        Some vs \<Rightarrow> vs
                                      | None \<Rightarrow> [])
                     in Inr (st1\<lparr>variables :=
                                   (if returnValue \<noteq> Undefined
                                    then setVar savedVars ''__return__'' returnValue
                                    else savedVars),
                                 envObject := envObject st1 + 1,
                                 callStack := rev below,
                                 currentLine := resume\<rparr>)))))"

definition execElse :: "program \<Rightarrow> state \<Rightarrow> state" where
  "execElse P st =
     st\<lparr>currentLine :=
          findMatchingEnd (lines P) ''IF''
            (case topFrame (callStack st) of
               None \<Rightarrow> currentLine st
             | Some block \<Rightarrow> if line block \<noteq> 0 then line block else currentLine st)
          + 1\<rparr>"

text \<open>The chain of \<^verbatim>\<open>if\<close>/\<^verbatim>\<open>else if\<close> on \<^verbatim>\<open>upperLine\<close>.\<close>

definition dispatch ::
  "host \<Rightarrow> program \<Rightarrow> evalT \<Rightarrow> callT \<Rightarrow> string \<Rightarrow> string \<Rightarrow> state \<Rightarrow> error + state" where
  "dispatch h P ev call ln upperLine st =
     (if startsWith upperLine ''SET '' then execSet ev ln st
      else if startsWith upperLine ''OUTPUT '' \<or> startsWith upperLine ''PRINT ''
        then execOutput ev ln upperLine st
      else if startsWith upperLine ''INPUT '' then Inr (execInput h ln st)
      else if startsWith upperLine ''IF '' then execIf h P ln st
      else if upperLine = ''END IF'' then Inr (execEndIf st)
      else if startsWith upperLine ''WHILE '' then execWhile h P ln st
      else if upperLine = ''END WHILE'' then Inr (execEndWhile st)
      else if startsWith upperLine ''FOR '' then execFor h P ev ln st
      else if upperLine = ''END FOR'' \<or> startsWith upperLine ''NEXT '' then Inr (execNext h st)
      else if startsWith upperLine ''FUNCTION '' \<or> startsWith upperLine ''PROCEDURE ''
        then Inr (execHeader P ln st)
      else if upperLine = ''ENDFUNCTION'' \<or> upperLine = ''END FUNCTION''
              \<or> upperLine = ''ENDPROCEDURE'' \<or> upperLine = ''END PROCEDURE''
        then Inr (advance st)
      else if startsWith upperLine ''CALL '' then execCall ev call ln st
      else if startsWith upperLine ''RETURN'' then execReturn ev ln st
      else if upperLine = ''ELSE'' then Inr (execElse P st)
      else if upperLine = ''ENDIF'' then Inr (execEndIf st)
      else Inr (advance st))"

definition checkFinished :: "program \<Rightarrow> state \<Rightarrow> state" where
  "checkFinished P st =
     (if length (lines P) \<le> currentLine st then st\<lparr>finished := True\<rparr> else st)"

text \<open>
  \<^verbatim>\<open>executeLine\<close>. A comment and an arrow assignment return before the last statement
  of the method, which sets \<^verbatim>\<open>finished\<close>.
\<close>

definition executeLine ::
  "host \<Rightarrow> program \<Rightarrow> evalT \<Rightarrow> callT \<Rightarrow> string \<Rightarrow> state \<Rightarrow> error + state" where
  "executeLine h P ev call ln st =
     (if startsWith (trim ln) ''#'' \<or> startsWith (trim ln) ''//'' then Inr (advance st)
      else
        (case match ln reArrowAssign of
           Some arrowAssignMatch \<Rightarrow>
             (case assign ev (group arrowAssignMatch 1) (group arrowAssignMatch 2) st of
                Inl e \<Rightarrow> Inl e
              | Inr st1 \<Rightarrow> Inr (advance st1))
         | None \<Rightarrow>
             (case dispatch h P ev call ln (toUpperCase ln) st of
                Inl e \<Rightarrow> Inl e
              | Inr st1 \<Rightarrow> Inr (checkFinished P st1))))"

section \<open>Function calls\<close>

fun bindParams :: "string list \<Rightarrow> jsval list \<Rightarrow> vars \<Rightarrow> vars" where
  "bindParams [] args vs = vs"
| "bindParams (p # ps) args vs =
     bindParams ps (drop 1 args) (setVar vs p (case args of [] \<Rightarrow> Undefined | a # _ \<Rightarrow> a))"

definition endMarkers :: "string list" where
  "endMarkers = [''ENDFUNCTION'', ''END FUNCTION'', ''ENDPROCEDURE'', ''END PROCEDURE'']"

text \<open>
  The loop of \<^verbatim>\<open>callFunction\<close> over the lines of the body. Reading a line past the end
  of the program gives \<^verbatim>\<open>undefined\<close>, and \<^verbatim>\<open>line.toUpperCase()\<close> throws.
\<close>

primrec runBody ::
  "host \<Rightarrow> program \<Rightarrow> evalT \<Rightarrow> callT \<Rightarrow> nat \<Rightarrow> funcDef \<Rightarrow> state \<Rightarrow> error + (jsval \<times> state)" where
  "runBody h P ev call 0 = (\<lambda>funcDef st. Inl OutOfFuel)"
| "runBody h P ev call (Suc n) =
     (\<lambda>funcDef st.
        if currentLine st \<le> endLine funcDef then
          (if currentLine st < length (lines P) then
             (let ln = lines P ! currentLine st; upperLine = toUpperCase ln in
                if startsWith upperLine ''RETURN'' then
                  (case match ln reReturn of
                     Some returnMatch \<Rightarrow> ev (group returnMatch 1) st
                   | None \<Rightarrow> Inr (Undefined, st))
                else if upperLine \<in> set endMarkers then Inr (Undefined, st)
                else
                  (case executeLine h P ev call ln st of
                     Inl e \<Rightarrow> Inl e
                   | Inr st' \<Rightarrow> runBody h P ev call n funcDef st'))
           else Inl TypeError)
        else Inr (Undefined, st))"

primrec callFunction :: "host \<Rightarrow> program \<Rightarrow> nat \<Rightarrow> callT" where
  "callFunction h P 0 = (\<lambda>funcName args st. Inl OutOfFuel)"
| "callFunction h P (Suc n) =
     (\<lambda>funcName args st.
        case funcs P funcName of
          None \<Rightarrow> Inr (Undefined, st)
        | Some funcDef \<Rightarrow>
            (case runBody h P (evaluateExpression h P (callFunction h P n) n)
                    (callFunction h P n) n funcDef
                    (st\<lparr>variables := bindParams (params funcDef) args [],
                        envObject := envObject st + 1,
                        callStack := [],
                        currentLine := startLine funcDef + 1\<rparr>) of
               Inl e \<Rightarrow> Inl e
             | Inr (returnValue, st') \<Rightarrow>
                 Inr (returnValue,
                      st'\<lparr>variables := variables st,
                          envObject := envObject st' + 1,
                          currentLine := currentLine st,
                          callStack := callStack st\<rparr>)))"

section \<open>Stepping\<close>

text \<open>The evaluator and the call mechanism of the interpreter, for a bound \<open>fuel\<close>.\<close>

definition evaluate :: "host \<Rightarrow> program \<Rightarrow> nat \<Rightarrow> evalT" where
  "evaluate h P fuel = evaluateExpression h P (callFunction h P fuel) fuel"

definition step :: "host \<Rightarrow> program \<Rightarrow> nat \<Rightarrow> state \<Rightarrow> error + state" where
  "step h P fuel st =
     (if finished st \<or> length (lines P) \<le> currentLine st then Inr (st\<lparr>finished := True\<rparr>)
      else executeLine h P (evaluate h P fuel) (callFunction h P fuel)
             (lines P ! currentLine st) st)"

text \<open>\<open>k\<close> calls of \<^verbatim>\<open>step\<close>, one after the other.\<close>

fun steps :: "host \<Rightarrow> program \<Rightarrow> nat \<Rightarrow> nat \<Rightarrow> state \<Rightarrow> error + state" where
  "steps h P fuel 0 st = Inr st"
| "steps h P fuel (Suc k) st =
     (case step h P fuel st of Inl e \<Rightarrow> Inl e | Inr st' \<Rightarrow> steps h P fuel k st')"

section \<open>A host for running programs\<close>

text \<open>
  To run a program the model needs a host. \<open>arithEval\<close> gives the value that JavaScript's
  \<^verbatim>\<open>eval\<close> gives to a decimal literal and to one arithmetic or comparison operator
  between two decimal literals, and is \<open>None\<close> on every other text. The runs below only
  evaluate texts of these two forms and texts on which \<^verbatim>\<open>eval\<close> does throw. No program
  below reads input or converts a string to a number, so the other three fields of
  \<open>arithHost\<close> are never used.
\<close>

definition isOpChar :: "char \<Rightarrow> bool" where
  "isOpChar c = (c \<in> set ''+-*<>=!'')"

definition parseOperand :: "string \<Rightarrow> (int \<times> string) option" where
  "parseOperand s =
     (let ds = takeWhile isDigit s in
        if ds = [] \<or> (1 < length ds \<and> hd ds = CHR ''0'') then None
        else Some (int (parseNat ds), dropWhile isDigit s))"

definition applyOp :: "string \<Rightarrow> int \<Rightarrow> int \<Rightarrow> jsval option" where
  "applyOp opr a b =
     (if opr = ''+'' then Some (Num (a + b))
      else if opr = ''-'' then Some (Num (a - b))
      else if opr = ''*'' then Some (Num (a * b))
      else if opr = ''<='' then Some (Bool (a \<le> b))
      else if opr = ''<'' then Some (Bool (a < b))
      else if opr = ''>='' then Some (Bool (b \<le> a))
      else if opr = ''>'' then Some (Bool (b < a))
      else if opr = ''=='' \<or> opr = ''==='' then Some (Bool (a = b))
      else None)"

definition arithEval :: "string \<Rightarrow> jsval option" where
  "arithEval s =
     (case parseOperand (dropWhile isSpace s) of
        None \<Rightarrow> None
      | Some (a, r1) \<Rightarrow>
          (let r2 = dropWhile isSpace r1 in
             if r2 = [] then Some (Num a)
             else (case parseOperand (dropWhile isSpace (dropWhile isOpChar r2)) of
                     None \<Rightarrow> None
                   | Some (b, r3) \<Rightarrow>
                       if dropWhile isSpace r3 \<noteq> [] then None
                       else applyOp (takeWhile isOpChar r2) a b)))"

definition arithHost :: host where
  "arithHost =
     \<lparr>jsEval = arithEval, stringToNumber = (\<lambda>s. NaN), parseFloat = (\<lambda>s. NaN),
      inputCallback = (\<lambda>k prompt. None)\<rparr>"

section \<open>Programs used below\<close>

text \<open>A single statement, after which the program is finished.\<close>

definition outputProgram :: program where
  "outputProgram = programOfLines [''OUTPUT 1'']"

text \<open>
  A line that starts with the keyword \<open>kw\<close> and goes on with \<^verbatim>\<open>x\<close>: an \<^verbatim>\<open>IF\<close>
  without \<^verbatim>\<open>THEN\<close>, a \<^verbatim>\<open>WHILE\<close> without \<^verbatim>\<open>DO\<close>, a \<^verbatim>\<open>FOR\<close> without bounds.
\<close>

definition stuckProgram :: "string \<Rightarrow> program" where
  "stuckProgram kw = programOfLines [kw @ '' x'']"

text \<open>A conditional with both branches, whose condition holds.\<close>

definition elseProgram :: program where
  "elseProgram =
     programOfLines
       [''SET x TO 1'', ''IF x == 1 THEN'', ''OUTPUT 1'', ''ELSE'', ''OUTPUT 2'', ''ENDIF'']"


text \<open>The same function with the whole conditional written on one line.\<close>

definition factOneLineProgram :: program where
  "factOneLineProgram =
     programOfLines
       [''FUNCTION fact(n)'', ''IF n<=1 THEN RETURN 1 ELSE RETURN n*fact(n-1) ENDIF'',
        ''ENDFUNCTION'']"


text \<open>A conditional with both branches, whose condition fails.\<close>

definition ifElseProgram :: program where
  "ifElseProgram =
     programOfLines [''IF 0 THEN'', ''OUTPUT 1'', ''ELSE'', ''OUTPUT 2'', ''ENDIF'']"

text \<open>A counting loop from 1 to 3, and one whose start lies above its end.\<close>

definition forProgram :: program where
  "forProgram = programOfLines [''FOR i '' @ arrow @ '' 1 TO 3'', ''OUTPUT i'', ''NEXT i'']"



text \<open>The program without lines, and a state in which \<open>x\<close> is 5.\<close>

definition emptyProgram :: program where
  "emptyProgram = programOfLines []"

definition xIsFive :: state where
  "xIsFive = initialState\<lparr>variables := [(''x'', Num 5)]\<rparr>"

section \<open>Notions for stating the properties\<close>

subsection \<open>How a line is read\<close>

text \<open>
  The following functions say which branch of \<open>executeLine\<close> takes a line, and with which
  parts. A line reaches the chain of keyword tests when it is neither a comment nor an
  arrow assignment.
\<close>

definition reachesChain :: "string \<Rightarrow> bool" where
  "reachesChain ln =
     (\<not> startsWith (trim ln) ''#'' \<and> \<not> startsWith (trim ln) ''//''
      \<and> match ln reArrowAssign = None)"

text \<open>The condition of a line that the \<^verbatim>\<open>IF\<close> branch takes and whose pattern matches.\<close>

definition ifCondition :: "string \<Rightarrow> string option" where
  "ifCondition ln =
     (if reachesChain ln \<and> startsWith (toUpperCase ln) ''IF ''
      then (case match ln reIf of Some m \<Rightarrow> Some (group m 1) | None \<Rightarrow> None)
      else None)"

text \<open>
  The loop variable, the start text and the end text of a line that the \<^verbatim>\<open>FOR\<close> branch
  takes and whose pattern matches.
\<close>

definition forHeader :: "string \<Rightarrow> (string \<times> string \<times> string) option" where
  "forHeader ln =
     (if reachesChain ln \<and> startsWith (toUpperCase ln) ''FOR ''
      then (case (if match ln reForArrow \<noteq> None then match ln reForArrow
                  else match ln reForFrom) of
              Some m \<Rightarrow> Some (group m 1, group m 2, group m 3)
            | None \<Rightarrow> None)
      else None)"




subsection \<open>Invariants\<close>

text \<open>
  An evaluation or a call gives back the variables, the counter and the stack it found.
\<close>

definition preserved :: "state \<Rightarrow> state \<Rightarrow> bool" where
  "preserved st st' =
     (variables st' = variables st \<and> currentLine st' = currentLine st
      \<and> callStack st' = callStack st)"

definition evalPreserves :: "evalT \<Rightarrow> bool" where
  "evalPreserves ev = (\<forall>x s v s'. ev x s = Inr (v, s') \<longrightarrow> preserved s s')"

definition callPreserves :: "callT \<Rightarrow> bool" where
  "callPreserves call = (\<forall>f args s v s'. call f args s = Inr (v, s') \<longrightarrow> preserved s s')"

text \<open>The lines that end the scan of the block matcher for a block type.\<close>

definition closes :: "string \<Rightarrow> string \<Rightarrow> bool" where
  "closes bt u =
     (u = ''END '' @ bt \<or> u = ''END'' @ bt \<or> (bt = ''FOR'' \<and> startsWith u ''NEXT '')
      \<or> (bt = ''IF'' \<and> u = ''ELSE''))"




section \<open>Auxiliary facts\<close>

lemma preserved_refl: "preserved st st"
  by (simp add: preserved_def)

lemma preserved_trans: "preserved a b \<Longrightarrow> preserved b c \<Longrightarrow> preserved a c"
  by (simp add: preserved_def)

lemma evalPreservesD: "evalPreserves ev \<Longrightarrow> ev x s = Inr (v, s') \<Longrightarrow> preserved s s'"
  by (auto simp: evalPreserves_def)

lemma callPreservesD: "callPreserves call \<Longrightarrow> call f args s = Inr (v, s') \<Longrightarrow> preserved s s'"
  by (auto simp: callPreserves_def)

lemma callFunction_preserves: "callPreserves (callFunction h P n)"
  unfolding callPreserves_def
  by (cases n) (auto simp: preserved_def split: option.splits sum.splits prod.splits)

lemma evaluateAll_preserved:
  assumes ev: "evalPreserves ev"
  shows "evaluateAll ev xs st = Inr (vs, st') \<Longrightarrow> preserved st st'"
proof (induction xs arbitrary: st vs st')
  case Nil
  then show ?case by (simp add: preserved_refl)
next
  case (Cons x xs)
  from Cons.prems obtain v st1 vs' where
    a: "ev x st = Inr (v, st1)" and b: "evaluateAll ev xs st1 = Inr (vs', st')"
    by (auto split: sum.splits prod.splits)
  from evalPreservesD [OF ev a] Cons.IH [OF b] show ?case by (rule preserved_trans)
qed

lemma replaceCalls_preserved:
  assumes ev: "evalPreserves ev" and call: "callPreserves call"
  shows "replaceCalls P ev call ps st = Inr (r, st') \<Longrightarrow> preserved st st'"
proof (induction ps arbitrary: st r st')
  case Nil
  then show ?case by (simp add: preserved_refl)
next
  case (Cons p ps)
  show ?case
  proof (cases p)
    case (Chr c)
    with Cons.prems obtain r' where "replaceCalls P ev call ps st = Inr (r', st')"
      by (auto split: sum.splits prod.splits)
    then show ?thesis by (rule Cons.IH)
  next
    case (Match m)
    consider (builtin) "toUpperCase (group m 1) \<in> set builtInFunctions"
      | (user) "toUpperCase (group m 1) \<notin> set builtInFunctions" "funcs P (group m 1) \<noteq> None"
      | (other) "toUpperCase (group m 1) \<notin> set builtInFunctions" "funcs P (group m 1) = None"
      by blast
    then show ?thesis
    proof cases
      case builtin
      with Cons.prems Match obtain v st1 r' where
        a': "ev (trim (group m 2)) st = Inr (v, st1)"
        and b: "replaceCalls P ev call ps st1 = Inr (r', st')"
        by (auto split: sum.splits prod.splits)
      from evalPreservesD [OF ev a'] Cons.IH [OF b] show ?thesis by (rule preserved_trans)
    next
      case user
      with Cons.prems Match obtain args st1 v st2 r' where
        a: "(if group m 2 \<noteq> []
             then evaluateAll ev (map trim (splitOn (CHR '','') (group m 2))) st
             else Inr ([], st)) = Inr (args, st1)"
        and b: "call (group m 1) args st1 = Inr (v, st2)"
        and c: "replaceCalls P ev call ps st2 = Inr (r', st')"
        by (auto split: sum.splits prod.splits)
      from a have "preserved st st1"
        by (auto split: if_splits dest: evaluateAll_preserved [OF ev] simp: preserved_refl)
      with callPreservesD [OF call b] Cons.IH [OF c] show ?thesis
        by (blast intro: preserved_trans)
    next
      case other
      with Cons.prems Match obtain r' where "replaceCalls P ev call ps st = Inr (r', st')"
        by (auto split: sum.splits prod.splits)
      then show ?thesis by (rule Cons.IH)
    qed
  qed
qed

lemma replaceCallsLoop_preserved:
  assumes ev: "evalPreserves ev" and call: "callPreserves call"
  shows "replaceCallsLoop P ev call n t st = Inr (r, st') \<Longrightarrow> preserved st st'"
proof (induction n arbitrary: t st r st')
  case 0
  then show ?case by simp
next
  case (Suc n)
  from Suc.prems obtain b t' st1 where
    a: "replaceCalls P ev call (pieces reCallExpr [] None 0 t) st = Inr ((b, t'), st1)"
    and c: "if b then replaceCallsLoop P ev call n t' st1 = Inr (r, st')
            else (t', st1) = (r, st')"
    by (auto split: sum.splits prod.splits if_splits)
  note p1 = replaceCalls_preserved [OF ev call a]
  show ?case
  proof (cases b)
    case True
    with c have "replaceCallsLoop P ev call n t' st1 = Inr (r, st')" by simp
    from p1 Suc.IH [OF this] show ?thesis by (rule preserved_trans)
  next
    case False
    with c p1 show ?thesis by simp
  qed
qed

lemma evaluateExpression_preserves:
  assumes call: "callPreserves call"
  shows "evalPreserves (evaluateExpression h P call n)"
proof (induction n)
  case 0
  then show ?case by (simp add: evalPreserves_def)
next
  case (Suc n)
  show ?case
    unfolding evalPreserves_def
  proof (intro allI impI)
    fix x s v s'
    assume run: "evaluateExpression h P call (Suc n) x s = Inr (v, s')"
    consider (quoted) "startsWith (trim x) [CHR 0x22] \<and> endsWith (trim x) [CHR 0x22]"
      | (listLit) "\<not> (startsWith (trim x) [CHR 0x22] \<and> endsWith (trim x) [CHR 0x22])"
                  "startsWith (trim x) ''['' \<and> endsWith (trim x) '']''"
      | (formula) "\<not> (startsWith (trim x) [CHR 0x22] \<and> endsWith (trim x) [CHR 0x22])"
                  "\<not> (startsWith (trim x) ''['' \<and> endsWith (trim x) '']'')"
      by blast
    then show "preserved s s'"
    proof cases
      case quoted
      with run show ?thesis by (simp add: Let_def preserved_refl)
    next
      case listLit
      with run obtain items where
        "evaluateAll (evaluateExpression h P call n)
           (map trim (splitOn (CHR '','') (slice1 (trim x)))) s = Inr (items, s')"
        by (auto simp: Let_def split: sum.splits prod.splits)
      then show ?thesis by (rule evaluateAll_preserved [OF Suc.IH])
    next
      case formula
      with run obtain t where
        "replaceCallsLoop P (evaluateExpression h P call n) call n (trim x) s = Inr (t, s')"
        by (auto simp: Let_def split: sum.splits prod.splits)
      then show ?thesis by (rule replaceCallsLoop_preserved [OF Suc.IH call])
    qed
  qed
qed

lemma evaluate_preserves: "evalPreserves (evaluate h P fuel)"
  unfolding evaluate_def by (rule evaluateExpression_preserves [OF callFunction_preserves])

lemma scanEnd_bounds: "scanEnd bt ls i d = Some r \<Longrightarrow> i \<le> r \<and> r < i + length ls"
proof (induction ls arbitrary: i d)
  case Nil
  then show ?case by simp
next
  case (Cons l ls)
  from Cons.prems have "r = i \<or> (\<exists>d'. scanEnd bt ls (i + 1) d' = Some r)"
    by (auto simp: Let_def split: if_splits)
  then show ?case
  proof
    assume "r = i"
    then show ?thesis by simp
  next
    assume "\<exists>d'. scanEnd bt ls (i + 1) d' = Some r"
    then obtain d' where "scanEnd bt ls (i + 1) d' = Some r" ..
    from Cons.IH [OF this] show ?thesis by simp
  qed
qed

lemma scanEnd_closes:
  "scanEnd bt ls i d = Some r \<Longrightarrow> closes bt (toUpperCase (ls ! (r - i)))"
proof (induction ls arbitrary: i d)
  case Nil
  then show ?case by simp
next
  case (Cons l ls)
  from Cons.prems have
    "(r = i \<and> closes bt (toUpperCase l)) \<or> (\<exists>d'. scanEnd bt ls (i + 1) d' = Some r)"
    by (auto simp: Let_def closes_def split: if_splits)
  then show ?case
  proof
    assume "r = i \<and> closes bt (toUpperCase l)"
    then show ?thesis by simp
  next
    assume "\<exists>d'. scanEnd bt ls (i + 1) d' = Some r"
    then obtain d' where s: "scanEnd bt ls (i + 1) d' = Some r" ..
    from scanEnd_bounds [OF s] have "i < r" by simp
    then have "(l # ls) ! (r - i) = ls ! (r - (i + 1))"
      by (simp add: nth_Cons')
    with Cons.IH [OF s] show ?thesis by simp
  qed
qed

lemma findMatchingEnd_le: "findMatchingEnd ls bt s \<le> length ls"
proof (cases "scanEnd bt (drop (s + 1) ls) (s + 1) 1")
  case None
  then show ?thesis by (simp add: findMatchingEnd_def)
next
  case (Some r)
  from scanEnd_bounds [OF Some] have "r < s + 1 + (length ls - (s + 1))" by simp
  moreover from Some have "drop (s + 1) ls \<noteq> []" by auto
  ultimately have "r < length ls" by simp
  with Some show ?thesis by (simp add: findMatchingEnd_def)
qed

lemma findMatchingEnd_gt: "s < length ls \<Longrightarrow> s < findMatchingEnd ls bt s"
proof (cases "scanEnd bt (drop (s + 1) ls) (s + 1) 1")
  case None
  assume "s < length ls"
  with None show ?thesis by (simp add: findMatchingEnd_def)
next
  case (Some r)
  from scanEnd_bounds [OF Some] Some show ?thesis by (simp add: findMatchingEnd_def)
qed

lemma findMatchingEnd_closes:
  assumes "findMatchingEnd ls bt s < length ls"
  shows "closes bt (toUpperCase (ls ! findMatchingEnd ls bt s))"
proof (cases "scanEnd bt (drop (s + 1) ls) (s + 1) 1")
  case None
  with assms show ?thesis by (simp add: findMatchingEnd_def)
next
  case (Some r)
  from scanEnd_bounds [OF Some] have b: "s + 1 \<le> r" by simp
  moreover from Some have "drop (s + 1) ls \<noteq> []" by auto
  ultimately have "drop (s + 1) ls ! (r - (s + 1)) = ls ! r" by simp
  with scanEnd_closes [OF Some] Some show ?thesis by (simp add: findMatchingEnd_def)
qed





























lemma startsWithE:
  assumes "startsWith s p"
  obtains r where "s = p @ r"
proof
  from assms show "s = p @ drop (length p) s"
    by (metis append_take_drop_id startsWith_def)
qed

lemma dispatch_if:
  assumes "startsWith u ''IF ''"
  shows "dispatch h P ev call ln u st = execIf h P ln st"
proof -
  from assms obtain r where "u = ''IF '' @ r" by (rule startsWithE)
  then show ?thesis by (simp add: dispatch_def startsWith_def)
qed

lemma dispatch_for:
  assumes "startsWith u ''FOR ''"
  shows "dispatch h P ev call ln u st = execFor h P ev ln st"
proof -
  from assms obtain r where "u = ''FOR '' @ r" by (rule startsWithE)
  then show ?thesis by (simp add: dispatch_def startsWith_def)
qed



lemma step_chain:
  assumes "\<not> finished st" and "currentLine st < length (lines P)"
    and "reachesChain (lines P ! currentLine st)"
  shows "step h P fuel st =
           (case dispatch h P (evaluate h P fuel) (callFunction h P fuel)
                   (lines P ! currentLine st) (toUpperCase (lines P ! currentLine st)) st of
              Inl e \<Rightarrow> Inl e
            | Inr st1 \<Rightarrow> Inr (checkFinished P st1))"
  using assms by (simp add: step_def executeLine_def reachesChain_def)

lemma step_false_if:
  assumes "\<not> finished st" and "currentLine st < length (lines P)"
    and "ifCondition (lines P ! currentLine st) = Some c"
    and "evaluateCondition h (variables st) c = Inr v" and "\<not> truthy v"
  shows "step h P fuel st =
           Inr (checkFinished P
                  (st\<lparr>currentLine := findMatchingEnd (lines P) ''IF'' (currentLine st) + 1\<rparr>))"
proof -
  let ?ln = "lines P ! currentLine st"
  from assms(3) have r: "reachesChain ?ln" and s: "startsWith (toUpperCase ?ln) ''IF ''"
    by (auto simp: ifCondition_def split: if_splits)
  from assms(3) obtain m where m: "match ?ln reIf = Some m" and c: "group m 1 = c"
    by (auto simp: ifCondition_def split: if_splits option.splits)
  from assms(4,5) m c have
    "execIf h P ?ln st
       = Inr (st\<lparr>currentLine := findMatchingEnd (lines P) ''IF'' (currentLine st) + 1\<rparr>)"
    by (simp add: execIf_def)
  with step_chain [OF assms(1,2) r] dispatch_if [OF s] show ?thesis by simp
qed

lemma lessEq_Num: "lessEq h (Num a) (Num b) = (a \<le> b)"
  by (simp add: lessEq_def toPrimitive_def toNumber_def)



lemma getVar_setVar_other: "k' \<noteq> k \<Longrightarrow> getVar (setVar vs k v) k' = getVar vs k'"
  by (induction vs) (auto simp: getVar_def)

lemma step_for_first:
  assumes "\<not> finished st" and "currentLine st < length (lines P)"
    and "forHeader (lines P ! currentLine st) = Some (v, s, e)"
    and "find (\<lambda>block. line block = currentLine st \<and> ftype block = ''FOR'') (callStack st)
           = None"
    and "evaluate h P fuel s st = Inr (a, st1)"
    and "evaluate h P fuel e st1 = Inr (b, st2)"
  shows "step h P fuel st =
           Inr (checkFinished P
                  (st2\<lparr>variables := setVar (variables st2) v a,
                       callStack := callStack st
                          @ [(newFrame (currentLine st) ''FOR'')
                               \<lparr>loopVar := Some v, loopEnd := Some b\<rparr>],
                       currentLine := currentLine st + 1\<rparr>))"
proof -
  let ?ln = "lines P ! currentLine st"
  from assms(3) have r: "reachesChain ?ln" and u: "startsWith (toUpperCase ?ln) ''FOR ''"
    by (auto simp: forHeader_def split: if_splits)
  from assms(3) obtain m where
    m: "(if match ?ln reForArrow \<noteq> None then match ?ln reForArrow else match ?ln reForFrom)
          = Some m"
    and g: "group m 1 = v" "group m 2 = s" "group m 3 = e"
    by (auto simp: forHeader_def split: if_splits option.splits)
  from evalPreservesD [OF evaluate_preserves assms(5)]
       evalPreservesD [OF evaluate_preserves assms(6)]
  have p: "currentLine st2 = currentLine st" "callStack st2 = callStack st"
    by (simp_all add: preserved_def)
  from m g assms(4,5,6) p have
    "execFor h P (evaluate h P fuel) ?ln st
       = Inr (st2\<lparr>variables := setVar (variables st2) v a,
                  callStack := callStack st
                     @ [(newFrame (currentLine st) ''FOR'')
                          \<lparr>loopVar := Some v, loopEnd := Some b\<rparr>],
                  currentLine := currentLine st + 1\<rparr>)"
    by (simp add: execFor_def Let_def)
  with step_chain [OF assms(1,2) r] dispatch_for [OF u] show ?thesis by simp
qed

lemma step_for_again:
  assumes "\<not> finished st" and "currentLine st < length (lines P)"
    and "forHeader (lines P ! currentLine st) = Some (v, s, e)"
    and "find (\<lambda>block. line block = currentLine st \<and> ftype block = ''FOR'') (callStack st)
           = Some existingLoop"
  shows "step h P fuel st =
           Inr (checkFinished P
                  (if lessEq h (getVar (variables st) (loopVarName existingLoop))
                        (loopEndValue existingLoop)
                   then st\<lparr>currentLine := currentLine st + 1\<rparr>
                   else st\<lparr>callStack := butlast (callStack st),
                           currentLine :=
                             findMatchingEnd (lines P) ''FOR'' (currentLine st) + 1\<rparr>))"
proof -
  let ?ln = "lines P ! currentLine st"
  from assms(3) have r: "reachesChain ?ln" and u: "startsWith (toUpperCase ?ln) ''FOR ''"
    by (auto simp: forHeader_def split: if_splits)
  from assms(3) obtain m where
    m: "(if match ?ln reForArrow \<noteq> None then match ?ln reForArrow else match ?ln reForFrom)
          = Some m"
    by (auto simp: forHeader_def split: if_splits option.splits)
  from m assms(4) have
    "execFor h P (evaluate h P fuel) ?ln st
       = Inr (if lessEq h (getVar (variables st) (loopVarName existingLoop))
                   (loopEndValue existingLoop)
              then st\<lparr>currentLine := currentLine st + 1\<rparr>
              else st\<lparr>callStack := butlast (callStack st),
                      currentLine :=
                        findMatchingEnd (lines P) ''FOR'' (currentLine st) + 1\<rparr>)"
    by (simp add: execFor_def Let_def)
  with step_chain [OF assms(1,2) r] dispatch_for [OF u] show ?thesis by simp
qed








lemma starMatch_none:
  "(\<And>pr t c. set t \<subseteq> set s \<Longrightarrow> k pr t c = None) \<Longrightarrow> starMatch p k prev s cs = None"
proof (induction s arbitrary: prev)
  case Nil
  then show ?case by simp
next
  case (Cons c s)
  have "starMatch p k (Some c) s cs = None"
    by (rule Cons.IH) (rule Cons.prems, auto)
  moreover have "k prev (c # s) cs = None"
    by (rule Cons.prems) simp
  ultimately show ?case by simp
qed

lemma rmatch_char_none: "x \<notin> set t \<Longrightarrow> rmatch (Seq (Lit [x]) r) k pr t cs = None"
  by (cases t) auto

lemma litMatch_char_none: "x \<notin> set t \<Longrightarrow> litMatch (\<lambda>c. c) [x] k pr t cs = None"
  by (cases t) auto

lemma rmatch_reCallExpr_none:
  assumes "CHR ''('' \<notin> set s"
  shows "rmatch reCallExpr k prev s cs = None"
proof (cases s)
  case Nil
  then show ?thesis by (simp add: reCallExpr_def)
next
  case (Cons c s')
  have inner: "CHR ''('' \<notin> set t'" if "set t' \<subseteq> set t" "set t \<subseteq> set s'" for t t'
    using that assms Cons by auto
  show ?thesis
    unfolding Cons reCallExpr_def
    apply simp
    apply (rule impI)
    apply (rule starMatch_none)
    apply (rule starMatch_none)
    apply (rule rmatch_char_none)
    apply (erule (1) inner)
    done
qed

lemma rmatch_reArrayAccess_none:
  assumes "CHR ''['' \<notin> set s"
  shows "rmatch reArrayAccess k prev s cs = None"
proof (cases s)
  case Nil
  then show ?thesis by (simp add: reArrayAccess_def)
next
  case (Cons c s')
  have inner: "CHR ''['' \<notin> set t" if "set t \<subseteq> set s'" for t
    using that assms Cons by auto
  show ?thesis
    unfolding Cons reArrayAccess_def
    apply simp
    apply (rule impI)
    apply (rule starMatch_none)
    apply (rule litMatch_char_none)
    apply (erule inner)
    done
qed

lemma pieces_no_match:
  "(\<And>pr t. set t \<subseteq> set s \<Longrightarrow> rmatch r (\<lambda>p rest cs. Some (rest, cs)) pr t (\<lambda>i. None) = None)
   \<Longrightarrow> pieces r pre prev 0 s = map Chr s"
proof (induction s arbitrary: pre prev)
  case Nil
  then show ?case by simp
next
  case (Cons c s)
  have "rmatch r (\<lambda>p rest cs. Some (rest, cs)) prev (c # s) (\<lambda>i. None) = None"
    by (rule Cons.prems) simp
  moreover have "pieces r (pre @ [c]) (Some c) 0 s = map Chr s"
    by (rule Cons.IH) (rule Cons.prems, auto)
  ultimately show ?case by simp
qed

lemma replaceCalls_chars: "replaceCalls P ev call (map Chr t) st = Inr ((False, t), st)"
  by (induction t) auto

lemma arrayReplacements_chars: "arrayReplacements h vs (map Chr t) = Inr []"
  by (induction t) auto

lemma set_trim: "set (trim e) \<subseteq> set e"
proof -
  have "set (dropWhile isSpace (rev (dropWhile isSpace e))) \<subseteq> set (rev (dropWhile isSpace e))"
    by (rule set_dropWhileD [THEN subsetI]) 
  moreover have "set (dropWhile isSpace e) \<subseteq> set e"
    by (rule set_dropWhileD [THEN subsetI])
  ultimately show ?thesis by (auto simp: trim_def)
qed

lemma evaluate_failed_general:
  assumes nq: "\<not> (startsWith (trim e) [CHR 0x22] \<and> endsWith (trim e) [CHR 0x22])"
    and nl: "\<not> (startsWith (trim e) ''['' \<and> endsWith (trim e) '']'')"
    and loop: "replaceCallsLoop P (evaluateExpression h P call n) call n (trim e) st
           = Inr (afterCalls, st')"
    and reps: "arrayReplacements h (variables st') (pieces reArrayAccess [] None 0 afterCalls)
           = Inr reps"
    and subst: "substituteVars literalForm (variables st') (applyReplacements reps afterCalls)
           = Inr processedExpr"
    and nc: "\<not> (CHR ''+'' \<in> set processedExpr \<and> CHR 0x22 \<in> set processedExpr)"
    and fail: "jsEval h processedExpr = None"
  shows "evaluateExpression h P call (Suc n) e st = Inr (Str processedExpr, st')"
proof -
  from nc have nc': "(CHR ''+'' \<in> set processedExpr \<and> CHR 0x22 \<in> set processedExpr) = False"
    by simp
  have "evaluateProcessed h (variables st') afterCalls = Inr (Str processedExpr)"
    by (simp add: evaluateProcessed_def reps subst nc' fail)
  moreover
  from nq have q: "(startsWith (trim e) [CHR 0x22] \<and> endsWith (trim e) [CHR 0x22]) = False"
    by blast
  from nl have l: "(startsWith (trim e) ''['' \<and> endsWith (trim e) '']'') = False"
    by blast
  have
    "evaluateExpression h P call (Suc n) e st
       = (case replaceCallsLoop P (evaluateExpression h P call n) call n (trim e) st of
            Inl e \<Rightarrow> Inl e
          | Inr (afterCalls, st') \<Rightarrow>
              (case evaluateProcessed h (variables st') afterCalls of
                 Inl e \<Rightarrow> Inl e
               | Inr v \<Rightarrow> Inr (v, st')))"
    by (simp only: evaluateExpression.simps Let_def q l if_False)
  ultimately show ?thesis by (simp only: loop sum.case prod.case)
qed

lemma evaluate_failed_literal:
  assumes vs: "variables st = []"
    and np: "CHR ''('' \<notin> set e" and nb: "CHR ''['' \<notin> set e"
    and nq: "\<not> (startsWith (trim e) [CHR 0x22] \<and> endsWith (trim e) [CHR 0x22])"
    and nc: "\<not> (CHR ''+'' \<in> set (trim e) \<and> CHR 0x22 \<in> set (trim e))"
    and fail: "jsEval h (trim e) = None"
  shows "evaluateExpression h P call (Suc (Suc n)) e st = Inr (Str (trim e), st)"
proof -
  from np set_trim [of e] have np': "CHR ''('' \<notin> set (trim e)" by auto
  from nb set_trim [of e] have nb': "CHR ''['' \<notin> set (trim e)" by auto
  have p1: "pieces reCallExpr [] None 0 (trim e) = map Chr (trim e)"
  proof (rule pieces_no_match)
    fix pr t
    assume "set t \<subseteq> set (trim e)"
    with np' have "CHR ''('' \<notin> set t" by auto
    then show "rmatch reCallExpr (\<lambda>p rest cs. Some (rest, cs)) pr t (\<lambda>i. None) = None"
      by (rule rmatch_reCallExpr_none)
  qed
  have p2: "pieces reArrayAccess [] None 0 (trim e) = map Chr (trim e)"
  proof (rule pieces_no_match)
    fix pr t
    assume "set t \<subseteq> set (trim e)"
    with nb' have "CHR ''['' \<notin> set t" by auto
    then show "rmatch reArrayAccess (\<lambda>p rest cs. Some (rest, cs)) pr t (\<lambda>i. None) = None"
      by (rule rmatch_reArrayAccess_none)
  qed
  have loop: "replaceCallsLoop P (evaluateExpression h P call (Suc n)) call (Suc n) (trim e) st
                = Inr (trim e, st)"
    by (simp add: p1 replaceCalls_chars)
  from nb' have nl: "\<not> (startsWith (trim e) ''['' \<and> endsWith (trim e) '']'')"
    by (cases "trim e") (auto simp: startsWith_def)
  have reps: "arrayReplacements h (variables st) (pieces reArrayAccess [] None 0 (trim e))
                = Inr []"
    by (simp add: p2 arrayReplacements_chars)
  have subst: "substituteVars literalForm (variables st) (applyReplacements [] (trim e))
                 = Inr (trim e)"
    by (simp add: vs)
  show ?thesis
    by (rule evaluate_failed_general [OF nq nl loop reps subst nc fail])
qed

section \<open>A finished engine\<close>

lemma step_of_finished: "finished st \<Longrightarrow> step h P fuel st = Inr st"
  by (simp add: step_def)

lemma steps_of_finished: "finished st \<Longrightarrow> steps h P fuel k st = Inr st"
  by (induction k) (simp_all add: step_of_finished)

text \<open>
  C7. Once a call of \<^verbatim>\<open>step\<close> has returned a finished state, any number of further
  calls leaves the whole engine state as it is, so each of them returns the same snapshot:
  the same current line, variables and finished flag.
\<close>

theorem step_idempotent_once_finished:
  assumes "step h P fuel st = Inr st'" and "finished st'"
  shows "steps h P fuel' k st' = Inr st'
         \<and> (\<forall>st''. step h P fuel' st' = Inr st'' \<longrightarrow> snapshot st'' = snapshot st')"
  using assms(2) by (simp add: steps_of_finished step_of_finished)

lemma outputProgram_step:
  "step arithHost outputProgram 2 initialState
     = Inr \<lparr>variables = [], currentLine = 1, finished = True, callStack = [],
            outputs = [''1''], inputsRead = 0, envObject = 0\<rparr>"
  by code_simp

theorem step_idempotent_once_finished_witness:
  "step arithHost outputProgram 2 initialState
     = Inr \<lparr>variables = [], currentLine = 1, finished = True, callStack = [],
            outputs = [''1''], inputsRead = 0, envObject = 0\<rparr>
   \<and> steps arithHost outputProgram 2 3
         \<lparr>variables = [], currentLine = 1, finished = True, callStack = [],
          outputs = [''1''], inputsRead = 0, envObject = 0\<rparr>
     = Inr \<lparr>variables = [], currentLine = 1, finished = True, callStack = [],
            outputs = [''1''], inputsRead = 0, envObject = 0\<rparr>"
  using step_idempotent_once_finished [OF outputProgram_step, of 2 3] outputProgram_step
  by simp

section \<open>A statement keyword without its pattern\<close>

lemma stuckProgram_step:
  "step arithHost (stuckProgram ''IF'') fuel initialState = Inr initialState"
  "step arithHost (stuckProgram ''WHILE'') fuel initialState = Inr initialState"
  "step arithHost (stuckProgram ''FOR'') fuel initialState = Inr initialState"
  by code_simp+

lemma steps_fixed: "step h P fuel st = Inr st \<Longrightarrow> steps h P fuel k st = Inr st"
  by (induction k) simp_all

text \<open>
  C3, at the programs whose only line is \<^verbatim>\<open>IF x\<close>, \<^verbatim>\<open>WHILE x\<close> or \<^verbatim>\<open>FOR x\<close>: the
  line starts with a statement keyword and the rest does not fit the pattern of the
  statement. No number of calls of \<^verbatim>\<open>step\<close> moves the counter from line 0 or sets the
  finished flag: the engine state stays the initial one.
\<close>

theorem keyword_without_pattern_never_advances:
  "steps arithHost (stuckProgram ''IF'') fuel k initialState = Inr initialState
   \<and> steps arithHost (stuckProgram ''WHILE'') fuel k initialState = Inr initialState
   \<and> steps arithHost (stuckProgram ''FOR'') fuel k initialState = Inr initialState"
  by (simp add: steps_fixed stuckProgram_step)

section \<open>ELSE reached from the then-branch\<close>

text \<open>
  C1, at \<open>elseProgram\<close>. After three steps the then-branch has run and the counter is on
  the \<^verbatim>\<open>ELSE\<close> of line 3, the frame of the \<^verbatim>\<open>IF\<close> of line 1 on the stack. The matcher,
  started from the line of that frame, returns the \<^verbatim>\<open>ELSE\<close> line itself, so the fourth
  step leaves the frame and sets the counter to 4, the first line of the else-branch, not
  to 6, one past the \<^verbatim>\<open>ENDIF\<close> of line 5. The run ends having printed both branches.
\<close>

theorem else_after_then_branch_runs_else_branch:
  "steps arithHost elseProgram 3 3 initialState
     = Inr \<lparr>variables = [(''x'', Num 1)], currentLine = 3, finished = False,
            callStack = [(newFrame 1 ''IF'')\<lparr>condition := Some ''x == 1''\<rparr>],
            outputs = [''1''], inputsRead = 0, envObject = 0\<rparr>
   \<and> findMatchingEnd (lines elseProgram) ''IF'' 1 = 3
   \<and> findMatchingEnd (lines elseProgram) ''IF'' 3 = 5
   \<and> steps arithHost elseProgram 3 4 initialState
     = Inr \<lparr>variables = [(''x'', Num 1)], currentLine = 4, finished = False,
            callStack = [(newFrame 1 ''IF'')\<lparr>condition := Some ''x == 1''\<rparr>],
            outputs = [''1''], inputsRead = 0, envObject = 0\<rparr>
   \<and> steps arithHost elseProgram 3 6 initialState
     = Inr \<lparr>variables = [(''x'', Num 1)], currentLine = 6, finished = True,
            callStack = [], outputs = [''1'', ''2''], inputsRead = 0, envObject = 0\<rparr>"
  by code_simp

section \<open>Recursive functions\<close>



text \<open>
  The layout matters, since a program is read line by line. With the conditional on one
  line the \<^verbatim>\<open>IF\<close> pattern finds the condition \<^verbatim>\<open>n<=1\<close> in it, and the rest of the line
  is not read: no line closes the block, so for the argument 5 the counter leaves the
  program, and the call returns no value and leaves the finished flag set.
\<close>

lemma fact_on_one_line:
  "callFunction arithHost factOneLineProgram 8 ''fact'' [Num 5] initialState
     = Inr (Undefined, initialState\<lparr>finished := True, envObject := 2\<rparr>)"
  by code_simp


section \<open>IF with a false condition\<close>

text \<open>
  C2 as stated, at \<open>ifElseProgram\<close>. For the \<^verbatim>\<open>IF\<close> of line 0 the matcher returns the
  \<^verbatim>\<open>ELSE\<close> of line 2; matching again from there finds the \<^verbatim>\<open>ENDIF\<close> of line 4. The
  condition is false and the step sets the counter to 3, the first line of the
  else-branch, not to 5, one past that \<^verbatim>\<open>ENDIF\<close>.
\<close>

theorem false_if_with_else_counterexample:
  "findMatchingEnd (lines ifElseProgram) ''IF'' 0 = 2
   \<and> toUpperCase (lines ifElseProgram ! 2) = ''ELSE''
   \<and> findMatchingEnd (lines ifElseProgram) ''IF'' 2 = 4
   \<and> step arithHost ifElseProgram 1 initialState
       = Inr \<lparr>variables = [], currentLine = 3, finished = False, callStack = [],
              outputs = [], inputsRead = 0, envObject = 0\<rparr>
   \<and> (3::nat) \<noteq> 4 + 1"
  by code_simp

text \<open>
  C2, amended. When the condition of an \<^verbatim>\<open>IF\<close> line evaluates to a false value, the
  step pushes no frame and changes nothing but the counter (and the finished flag, when
  the counter leaves the program): the counter becomes one past the line that the block
  matcher returns for this \<^verbatim>\<open>IF\<close>. That line lies behind the \<^verbatim>\<open>IF\<close>; it is a depth-1
  \<^verbatim>\<open>ELSE\<close>, so that the else-branch is entered, or the closing \<^verbatim>\<open>ENDIF\<close>/\<^verbatim>\<open>END IF\<close>,
  or the line count when the block is not closed.
\<close>

theorem false_if_jumps_past_matcher_result:
  assumes "\<not> finished st" and "currentLine st < length (lines P)"
    and "ifCondition (lines P ! currentLine st) = Some c"
    and "evaluateCondition h (variables st) c = Inr v" and "\<not> truthy v"
  shows "step h P fuel st
           = Inr (checkFinished P
                    (st\<lparr>currentLine :=
                          findMatchingEnd (lines P) ''IF'' (currentLine st) + 1\<rparr>))
         \<and> currentLine st < findMatchingEnd (lines P) ''IF'' (currentLine st)
         \<and> findMatchingEnd (lines P) ''IF'' (currentLine st) \<le> length (lines P)
         \<and> (findMatchingEnd (lines P) ''IF'' (currentLine st) < length (lines P) \<longrightarrow>
              toUpperCase (lines P ! findMatchingEnd (lines P) ''IF'' (currentLine st))
                \<in> {''ELSE'', ''END IF'', ''ENDIF''})"
  using step_false_if [OF assms] findMatchingEnd_gt [OF assms(2)]
    findMatchingEnd_le [of "lines P" "''IF''" "currentLine st"]
    findMatchingEnd_closes [of "lines P" "''IF''" "currentLine st"]
  by (auto simp: closes_def)

lemma ifElseProgram_facts:
  "\<not> finished initialState"
  "currentLine initialState < length (lines ifElseProgram)"
  "ifCondition (lines ifElseProgram ! currentLine initialState) = Some ''0''"
  "evaluateCondition arithHost (variables initialState) ''0'' = Inr (Num 0)"
  "\<not> truthy (Num 0)"
  by code_simp+

theorem false_if_jumps_past_matcher_result_witness:
  "step arithHost ifElseProgram 1 initialState
     = Inr \<lparr>variables = [], currentLine = 3, finished = False, callStack = [],
            outputs = [], inputsRead = 0, envObject = 0\<rparr>
   \<and> toUpperCase (lines ifElseProgram ! 2) \<in> {''ELSE'', ''END IF'', ''ENDIF''}"
proof -
  have m: "findMatchingEnd (lines ifElseProgram) ''IF'' (currentLine initialState) = 2"
    by code_simp
  have l: "(2::nat) < length (lines ifElseProgram)" by code_simp
  have c: "checkFinished ifElseProgram (initialState\<lparr>currentLine := 2 + 1\<rparr>)
            = \<lparr>variables = [], currentLine = 3, finished = False, callStack = [],
               outputs = [], inputsRead = 0, envObject = 0\<rparr>"
    by code_simp
  from false_if_jumps_past_matcher_result [OF ifElseProgram_facts, of 1] m l c
  show ?thesis by simp
qed

section \<open>The range of the program counter\<close>






section \<open>FOR loops\<close>

text \<open>
  C6. The loop \<^verbatim>\<open>FOR i <arrow> 1 TO 3\<close> of \<open>forProgram\<close>, whose body prints \<open>i\<close>, prints
  1, 2 and 3 and nothing else, and ends with \<open>i\<close> at 4. In any program: a \<^verbatim>\<open>FOR\<close> line
  met with no frame of its own on the stack binds the variable to the start value, pushes
  a frame with the variable and the end bound and moves into the body; met again, with the
  variable at \<open>i\<close> and the bound at \<open>n\<close>, it moves into the body when \<open>i \<le> n\<close> and
  otherwise pops the top frame and jumps to one past the end of the block.
\<close>

theorem for_loop_inclusive_bound:
  "steps arithHost forProgram 2 10 initialState
     = Inr \<lparr>variables = [(''i'', Num 4)], currentLine = 3, finished = True, callStack = [],
            outputs = [''1'', ''2'', ''3''], inputsRead = 0, envObject = 0\<rparr>
   \<and> (\<forall>h (P::program) fuel (st::state) v s e a st1 b st2.
        \<not> finished st \<and> currentLine st < length (lines P)
        \<and> forHeader (lines P ! currentLine st) = Some (v, s, e)
        \<and> find (\<lambda>block. line block = currentLine st \<and> ftype block = ''FOR'') (callStack st)
            = None
        \<and> evaluate h P fuel s st = Inr (a, st1) \<and> evaluate h P fuel e st1 = Inr (b, st2)
        \<longrightarrow> step h P fuel st
             = Inr (checkFinished P
                      (st2\<lparr>variables := setVar (variables st2) v a,
                           callStack := callStack st
                              @ [(newFrame (currentLine st) ''FOR'')
                                   \<lparr>loopVar := Some v, loopEnd := Some b\<rparr>],
                           currentLine := currentLine st + 1\<rparr>)))
   \<and> (\<forall>h (P::program) fuel (st::state) v s e existingLoop i n.
        \<not> finished st \<and> currentLine st < length (lines P)
        \<and> forHeader (lines P ! currentLine st) = Some (v, s, e)
        \<and> find (\<lambda>block. line block = currentLine st \<and> ftype block = ''FOR'') (callStack st)
            = Some existingLoop
        \<and> getVar (variables st) (loopVarName existingLoop) = Num i
        \<and> loopEndValue existingLoop = Num n
        \<longrightarrow> step h P fuel st
             = Inr (checkFinished P
                      (if i \<le> n then st\<lparr>currentLine := currentLine st + 1\<rparr>
                       else st\<lparr>callStack := butlast (callStack st),
                               currentLine :=
                                 findMatchingEnd (lines P) ''FOR'' (currentLine st) + 1\<rparr>)))"
proof (intro conjI allI impI)
  show "steps arithHost forProgram 2 10 initialState
     = Inr \<lparr>variables = [(''i'', Num 4)], currentLine = 3, finished = True, callStack = [],
            outputs = [''1'', ''2'', ''3''], inputsRead = 0, envObject = 0\<rparr>"
    by code_simp
next
  fix h and P :: program and fuel and st :: state and v s e a st1 b st2
  assume "\<not> finished st \<and> currentLine st < length (lines P)
        \<and> forHeader (lines P ! currentLine st) = Some (v, s, e)
        \<and> find (\<lambda>block. line block = currentLine st \<and> ftype block = ''FOR'') (callStack st)
            = None
        \<and> evaluate h P fuel s st = Inr (a, st1) \<and> evaluate h P fuel e st1 = Inr (b, st2)"
  then show "step h P fuel st
             = Inr (checkFinished P
                      (st2\<lparr>variables := setVar (variables st2) v a,
                           callStack := callStack st
                              @ [(newFrame (currentLine st) ''FOR'')
                                   \<lparr>loopVar := Some v, loopEnd := Some b\<rparr>],
                           currentLine := currentLine st + 1\<rparr>))"
    using step_for_first by blast
next
  fix h and P :: program and fuel and st :: state and v s e existingLoop and i n :: int
  assume a: "\<not> finished st \<and> currentLine st < length (lines P)
        \<and> forHeader (lines P ! currentLine st) = Some (v, s, e)
        \<and> find (\<lambda>block. line block = currentLine st \<and> ftype block = ''FOR'') (callStack st)
            = Some existingLoop
        \<and> getVar (variables st) (loopVarName existingLoop) = Num i
        \<and> loopEndValue existingLoop = Num n"
  then have "step h P fuel st =
           Inr (checkFinished P
                  (if lessEq h (getVar (variables st) (loopVarName existingLoop))
                        (loopEndValue existingLoop)
                   then st\<lparr>currentLine := currentLine st + 1\<rparr>
                   else st\<lparr>callStack := butlast (callStack st),
                           currentLine :=
                             findMatchingEnd (lines P) ''FOR'' (currentLine st) + 1\<rparr>))"
    using step_for_again by blast
  with a show "step h P fuel st
             = Inr (checkFinished P
                      (if i \<le> n then st\<lparr>currentLine := currentLine st + 1\<rparr>
                       else st\<lparr>callStack := butlast (callStack st),
                               currentLine :=
                                 findMatchingEnd (lines P) ''FOR'' (currentLine st) + 1\<rparr>))"
    by (simp add: lessEq_Num)
qed

lemma forProgram_facts:
  "\<not> finished initialState \<and> currentLine initialState < length (lines forProgram)
   \<and> forHeader (lines forProgram ! currentLine initialState) = Some (''i'', ''1'', ''3'')
   \<and> find (\<lambda>block. line block = currentLine initialState \<and> ftype block = ''FOR'')
        (callStack initialState) = None
   \<and> evaluate arithHost forProgram 2 ''1'' initialState = Inr (Num 1, initialState)
   \<and> evaluate arithHost forProgram 2 ''3'' initialState = Inr (Num 3, initialState)"
  by code_simp

lemma forProgram_exit_facts:
  "\<not> finished
       \<lparr>variables = [(''i'', Num 4)], currentLine = 0, finished = False,
        callStack = [(newFrame 0 ''FOR'')\<lparr>loopVar := Some ''i'', loopEnd := Some (Num 3)\<rparr>],
        outputs = [''1'', ''2'', ''3''], inputsRead = 0, envObject = 0\<rparr>
   \<and> currentLine
       \<lparr>variables = [(''i'', Num 4)], currentLine = 0, finished = False,
        callStack = [(newFrame 0 ''FOR'')\<lparr>loopVar := Some ''i'', loopEnd := Some (Num 3)\<rparr>],
        outputs = [''1'', ''2'', ''3''], inputsRead = 0, envObject = 0\<rparr>
       < length (lines forProgram)
   \<and> forHeader
        (lines forProgram
           ! currentLine
               \<lparr>variables = [(''i'', Num 4)], currentLine = 0, finished = False,
                callStack = [(newFrame 0 ''FOR'')
                               \<lparr>loopVar := Some ''i'', loopEnd := Some (Num 3)\<rparr>],
                outputs = [''1'', ''2'', ''3''], inputsRead = 0, envObject = 0\<rparr>)
       = Some (''i'', ''1'', ''3'')
   \<and> find (\<lambda>block. line block
                      = currentLine
                          \<lparr>variables = [(''i'', Num 4)], currentLine = 0, finished = False,
                           callStack = [(newFrame 0 ''FOR'')
                                          \<lparr>loopVar := Some ''i'', loopEnd := Some (Num 3)\<rparr>],
                           outputs = [''1'', ''2'', ''3''], inputsRead = 0, envObject = 0\<rparr>
                    \<and> ftype block = ''FOR'')
        (callStack
           \<lparr>variables = [(''i'', Num 4)], currentLine = 0, finished = False,
            callStack = [(newFrame 0 ''FOR'')\<lparr>loopVar := Some ''i'', loopEnd := Some (Num 3)\<rparr>],
            outputs = [''1'', ''2'', ''3''], inputsRead = 0, envObject = 0\<rparr>)
       = Some ((newFrame 0 ''FOR'')\<lparr>loopVar := Some ''i'', loopEnd := Some (Num 3)\<rparr>)
   \<and> getVar
        (variables
           \<lparr>variables = [(''i'', Num 4)], currentLine = 0, finished = False,
            callStack = [(newFrame 0 ''FOR'')\<lparr>loopVar := Some ''i'', loopEnd := Some (Num 3)\<rparr>],
            outputs = [''1'', ''2'', ''3''], inputsRead = 0, envObject = 0\<rparr>)
        (loopVarName ((newFrame 0 ''FOR'')\<lparr>loopVar := Some ''i'', loopEnd := Some (Num 3)\<rparr>))
       = Num 4
   \<and> loopEndValue ((newFrame 0 ''FOR'')\<lparr>loopVar := Some ''i'', loopEnd := Some (Num 3)\<rparr>)
       = Num 3"
  by code_simp

theorem for_loop_inclusive_bound_witness:
  "step arithHost forProgram 2 initialState
     = Inr \<lparr>variables = [(''i'', Num 1)], currentLine = 1, finished = False,
            callStack = [(newFrame 0 ''FOR'')\<lparr>loopVar := Some ''i'', loopEnd := Some (Num 3)\<rparr>],
            outputs = [], inputsRead = 0, envObject = 0\<rparr>
   \<and> step arithHost forProgram 2
         \<lparr>variables = [(''i'', Num 4)], currentLine = 0, finished = False,
          callStack = [(newFrame 0 ''FOR'')\<lparr>loopVar := Some ''i'', loopEnd := Some (Num 3)\<rparr>],
          outputs = [''1'', ''2'', ''3''], inputsRead = 0, envObject = 0\<rparr>
     = Inr \<lparr>variables = [(''i'', Num 4)], currentLine = 3, finished = True,
            callStack = [], outputs = [''1'', ''2'', ''3''], inputsRead = 0, envObject = 0\<rparr>"
proof -
  have a: "checkFinished forProgram
             (initialState
                \<lparr>variables := setVar (variables initialState) ''i'' (Num 1),
                 callStack := callStack initialState
                    @ [(newFrame (currentLine initialState) ''FOR'')
                         \<lparr>loopVar := Some ''i'', loopEnd := Some (Num 3)\<rparr>],
                 currentLine := currentLine initialState + 1\<rparr>)
           = \<lparr>variables = [(''i'', Num 1)], currentLine = 1, finished = False,
              callStack = [(newFrame 0 ''FOR'')\<lparr>loopVar := Some ''i'', loopEnd := Some (Num 3)\<rparr>],
              outputs = [], inputsRead = 0, envObject = 0\<rparr>"
    by code_simp
  have b: "checkFinished forProgram
             (if (4::int) \<le> 3
              then \<lparr>variables = [(''i'', Num 4)], currentLine = 0, finished = False,
                    callStack = [(newFrame 0 ''FOR'')
                                   \<lparr>loopVar := Some ''i'', loopEnd := Some (Num 3)\<rparr>],
                    outputs = [''1'', ''2'', ''3''], inputsRead = 0, envObject = 0\<rparr>
                   \<lparr>currentLine := 0 + 1\<rparr>
              else \<lparr>variables = [(''i'', Num 4)], currentLine = 0, finished = False,
                    callStack = [(newFrame 0 ''FOR'')
                                   \<lparr>loopVar := Some ''i'', loopEnd := Some (Num 3)\<rparr>],
                    outputs = [''1'', ''2'', ''3''], inputsRead = 0, envObject = 0\<rparr>
                   \<lparr>callStack := butlast [(newFrame 0 ''FOR'')
                                   \<lparr>loopVar := Some ''i'', loopEnd := Some (Num 3)\<rparr>],
                    currentLine := findMatchingEnd (lines forProgram) ''FOR'' 0 + 1\<rparr>)
           = \<lparr>variables = [(''i'', Num 4)], currentLine = 3, finished = True,
              callStack = [], outputs = [''1'', ''2'', ''3''], inputsRead = 0, envObject = 0\<rparr>"
    by code_simp
  note T = for_loop_inclusive_bound
  from T have first: "\<forall>h (P::program) fuel (st::state) v s e a st1 b st2.
        \<not> finished st \<and> currentLine st < length (lines P)
        \<and> forHeader (lines P ! currentLine st) = Some (v, s, e)
        \<and> find (\<lambda>block. line block = currentLine st \<and> ftype block = ''FOR'') (callStack st)
            = None
        \<and> evaluate h P fuel s st = Inr (a, st1) \<and> evaluate h P fuel e st1 = Inr (b, st2)
        \<longrightarrow> step h P fuel st
             = Inr (checkFinished P
                      (st2\<lparr>variables := setVar (variables st2) v a,
                           callStack := callStack st
                              @ [(newFrame (currentLine st) ''FOR'')
                                   \<lparr>loopVar := Some v, loopEnd := Some b\<rparr>],
                           currentLine := currentLine st + 1\<rparr>))"
    by (elim conjE)
  from T have again: "\<forall>h (P::program) fuel (st::state) v s e existingLoop i n.
        \<not> finished st \<and> currentLine st < length (lines P)
        \<and> forHeader (lines P ! currentLine st) = Some (v, s, e)
        \<and> find (\<lambda>block. line block = currentLine st \<and> ftype block = ''FOR'') (callStack st)
            = Some existingLoop
        \<and> getVar (variables st) (loopVarName existingLoop) = Num i
        \<and> loopEndValue existingLoop = Num n
        \<longrightarrow> step h P fuel st
             = Inr (checkFinished P
                      (if i \<le> n then st\<lparr>currentLine := currentLine st + 1\<rparr>
                       else st\<lparr>callStack := butlast (callStack st),
                               currentLine :=
                                 findMatchingEnd (lines P) ''FOR'' (currentLine st) + 1\<rparr>))"
    by (elim conjE)
  from first [rule_format, OF forProgram_facts] a
  have one: "step arithHost forProgram 2 initialState
     = Inr \<lparr>variables = [(''i'', Num 1)], currentLine = 1, finished = False,
            callStack = [(newFrame 0 ''FOR'')\<lparr>loopVar := Some ''i'', loopEnd := Some (Num 3)\<rparr>],
            outputs = [], inputsRead = 0, envObject = 0\<rparr>"
    by simp
  from again [rule_format, OF forProgram_exit_facts] b
  have two: "step arithHost forProgram 2
         \<lparr>variables = [(''i'', Num 4)], currentLine = 0, finished = False,
          callStack = [(newFrame 0 ''FOR'')\<lparr>loopVar := Some ''i'', loopEnd := Some (Num 3)\<rparr>],
          outputs = [''1'', ''2'', ''3''], inputsRead = 0, envObject = 0\<rparr>
     = Inr \<lparr>variables = [(''i'', Num 4)], currentLine = 3, finished = True,
            callStack = [], outputs = [''1'', ''2'', ''3''], inputsRead = 0, envObject = 0\<rparr>"
    by simp
  from one two show ?thesis by (rule conjI)
qed





section \<open>Assignment to an array element\<close>





section \<open>An expression that cannot be evaluated\<close>

text \<open>
  C8 as stated, where \<open>x\<close> is 5 and the expression is \<^verbatim>\<open>x +\<close>. The variable is
  substituted first; \<^verbatim>\<open>eval\<close> fails on the text \<^verbatim>\<open>5 +\<close>, and the evaluator returns
  this text, not the text \<^verbatim>\<open>x +\<close> of the expression.
\<close>

theorem failed_evaluation_keeps_substituted_text_counterexample:
  "evaluate arithHost emptyProgram 2 ''x +'' xIsFive = Inr (Str ''5 +'', xIsFive)
   \<and> arithEval ''5 +'' = None
   \<and> Str ''5 +'' \<noteq> Str ''x +''"
  by code_simp

text \<open>
  C8, amended. When the last evaluation of an expression fails, the evaluator returns the
  text it tried to evaluate and raises nothing: the trimmed expression in which the calls
  are replaced by their results, the array accesses by the elements and the bound
  variables by their values. When no variable is bound and the expression contains no
  parenthesis and no bracket, this is the trimmed text of the expression itself.
\<close>

theorem failed_evaluation_returns_processed_text:
  "(\<forall>h (P::program) call n e (st::state) afterCalls (st'::state) reps processedExpr.
      \<not> (startsWith (trim e) [CHR 0x22] \<and> endsWith (trim e) [CHR 0x22])
      \<and> \<not> (startsWith (trim e) ''['' \<and> endsWith (trim e) '']'')
      \<and> replaceCallsLoop P (evaluateExpression h P call n) call n (trim e) st
           = Inr (afterCalls, st')
      \<and> arrayReplacements h (variables st') (pieces reArrayAccess [] None 0 afterCalls)
           = Inr reps
      \<and> substituteVars literalForm (variables st') (applyReplacements reps afterCalls)
           = Inr processedExpr
      \<and> \<not> (CHR ''+'' \<in> set processedExpr \<and> CHR 0x22 \<in> set processedExpr)
      \<and> jsEval h processedExpr = None
      \<longrightarrow> evaluateExpression h P call (Suc n) e st = Inr (Str processedExpr, st'))
   \<and> (\<forall>h (P::program) call n e (st::state).
      variables st = [] \<and> CHR ''('' \<notin> set e \<and> CHR ''['' \<notin> set e
      \<and> \<not> (startsWith (trim e) [CHR 0x22] \<and> endsWith (trim e) [CHR 0x22])
      \<and> \<not> (CHR ''+'' \<in> set (trim e) \<and> CHR 0x22 \<in> set (trim e))
      \<and> jsEval h (trim e) = None
      \<longrightarrow> evaluateExpression h P call (Suc (Suc n)) e st = Inr (Str (trim e), st))"
  using evaluate_failed_general evaluate_failed_literal by blast

lemma xIsFive_facts:
  "\<not> (startsWith (trim ''x +'') [CHR 0x22] \<and> endsWith (trim ''x +'') [CHR 0x22])
   \<and> \<not> (startsWith (trim ''x +'') ''['' \<and> endsWith (trim ''x +'') '']'')
   \<and> replaceCallsLoop emptyProgram
        (evaluateExpression arithHost emptyProgram (callFunction arithHost emptyProgram 1) 1)
        (callFunction arithHost emptyProgram 1) 1 (trim ''x +'') xIsFive
       = Inr (''x +'', xIsFive)
   \<and> arrayReplacements arithHost (variables xIsFive) (pieces reArrayAccess [] None 0 ''x +'')
       = Inr []
   \<and> substituteVars literalForm (variables xIsFive) (applyReplacements [] ''x +'')
       = Inr ''5 +''
   \<and> \<not> (CHR ''+'' \<in> set ''5 +'' \<and> CHR 0x22 \<in> set ''5 +'')
   \<and> jsEval arithHost ''5 +'' = None"
  by code_simp

lemma literal_facts:
  "variables initialState = [] \<and> CHR ''('' \<notin> set '' y + '' \<and> CHR ''['' \<notin> set '' y + ''
   \<and> \<not> (startsWith (trim '' y + '') [CHR 0x22] \<and> endsWith (trim '' y + '') [CHR 0x22])
   \<and> \<not> (CHR ''+'' \<in> set (trim '' y + '') \<and> CHR 0x22 \<in> set (trim '' y + ''))
   \<and> jsEval arithHost (trim '' y + '') = None"
  by code_simp

theorem failed_evaluation_returns_processed_text_witness:
  "evaluateExpression arithHost emptyProgram (callFunction arithHost emptyProgram 1) 2 ''x +''
     xIsFive = Inr (Str ''5 +'', xIsFive)
   \<and> evaluateExpression arithHost emptyProgram (callFunction arithHost emptyProgram 1) 2
       '' y + '' initialState = Inr (Str ''y +'', initialState)"
proof -
  have t: "trim '' y + '' = ''y +''" by code_simp
  note T = failed_evaluation_returns_processed_text
  from T [THEN conjunct1, rule_format, OF xIsFive_facts]
       T [THEN conjunct2, rule_format, OF literal_facts, of emptyProgram
            "callFunction arithHost emptyProgram 1" 0] t
  show ?thesis by (simp add: numeral_2_eq_2)
qed

end
